theory Spec2Isabelle
  imports Main "HOL-Library.Sublist" "HOL-Library.Char_ord" "HOL-Library.List_Lexorder"
begin

section \<open>Backend: the segment evaluator (utils/segmentEvaluator.js)\<close>

subsection \<open>JavaScript values of a request body\<close>

text \<open>
  A rule arrives as \<^verbatim>\<open>req.body.rules\<close>, parsed by \<^verbatim>\<open>express.json()\<close>: any JSON value.
  \<open>JUndefined\<close> is what reading an absent property gives. Numbers are kept in an
  abstract linearly ordered type \<open>'n\<close>; a JavaScript number that is not a finite number
  (\<^verbatim>\<open>NaN\<close>) is \<open>None\<close> of \<open>'n option\<close>. A \<^verbatim>\<open>Date\<close> is its time value, a number, and an
  invalid date is \<open>None\<close>.
\<close>

datatype 'n jsvalue =
    JUndefined
  | JNull
  | JBool bool
  | JNum 'n
  | JStr string
  | JArr "'n jsvalue list"
  | JObj "(string \<times> 'n jsvalue) list"

text \<open>
  The errors the evaluator can end with. \<^verbatim>\<open>throw new Error(`Unsupported field: ${field}`)\<close>
  and \<^verbatim>\<open>throw new Error(`Unsupported operator: ${operator}`)\<close> carry the offending value;
  \<open>TypeError\<close> is what the language raises on reading a property of \<^verbatim>\<open>null\<close> or
  \<^verbatim>\<open>undefined\<close> and on calling what is not a function; \<open>PrismaValidationError\<close> is
  the rejection of a query by the Prisma client.
\<close>

datatype 'n error =
    TypeError
  | UnsupportedField "'n jsvalue"
  | UnsupportedOperator "'n jsvalue"
  | PrismaValidationError

text \<open>
  Reading one of the properties \<^verbatim>\<open>type\<close>, \<^verbatim>\<open>conditions\<close>, \<^verbatim>\<open>field\<close>, \<^verbatim>\<open>operator\<close>,
  \<^verbatim>\<open>value\<close> of a value: a \<open>TypeError\<close> on \<^verbatim>\<open>null\<close> and \<^verbatim>\<open>undefined\<close>, the last binding
  of the key in an object (as \<^verbatim>\<open>JSON.parse\<close> keeps it), and \<^verbatim>\<open>undefined\<close> on every other
  value (no prototype has a property of one of these five names).
\<close>

fun property :: "'n jsvalue \<Rightarrow> string \<Rightarrow> 'n error + 'n jsvalue" where
  "property JUndefined k = Inl TypeError"
| "property JNull k = Inl TypeError"
| "property (JObj kvs) k = Inr (case map_of (rev kvs) k of None \<Rightarrow> JUndefined | Some v \<Rightarrow> v)"
| "property v k = Inr JUndefined"

text \<open>\<^verbatim>\<open>s.split(sep)\<close> for a one-character separator: never the empty array.\<close>

fun split :: "char \<Rightarrow> string \<Rightarrow> string list" where
  "split sep [] = [[]]"
| "split sep (c # cs) =
     (if c = sep then [] # split sep cs
      else (case split sep cs of [] \<Rightarrow> [[c]] | w # ws \<Rightarrow> (c # w) # ws))"

text \<open>Array destructuring \<^verbatim>\<open>const [a, b] = xs\<close>: a missing element is \<^verbatim>\<open>undefined\<close>.\<close>

definition element :: "'a list \<Rightarrow> nat \<Rightarrow> 'a option" where
  "element xs i = (if i < length xs then Some (xs ! i) else None)"

subsection \<open>The language's builtins\<close>

text \<open>
  \<^verbatim>\<open>parseFloat\<close>, \<^verbatim>\<open>parseInt\<close>, \<^verbatim>\<open>new Date(value)\<close>, the clock \<^verbatim>\<open>new Date()\<close> and the
  date arithmetic \<^verbatim>\<open>now.setDate(now.getDate() - n)\<close> belong to the JavaScript runtime,
  not to the repository, and compute on floating-point numbers. The evaluator takes them
  as given: every definition below has the runtime as its first argument, and every
  theorem holds for every runtime. The builtins return a number or a date for every
  value they are given: a value whose conversion to a string itself throws (an object
  with an own \<^verbatim>\<open>toString\<close> that is not a function) is outside what they describe.
\<close>

record 'n runtime =
  parseFloat :: "'n jsvalue \<Rightarrow> 'n option"
  parseInt :: "'n jsvalue \<Rightarrow> 'n option"
  newDate :: "'n jsvalue \<Rightarrow> 'n option"
  now :: 'n
  setDateBack :: "'n \<Rightarrow> 'n option \<Rightarrow> 'n option"

subsection \<open>Prisma where-inputs\<close>

text \<open>
  The evaluator builds the \<^verbatim>\<open>where\<close> argument of \<^verbatim>\<open>prisma.customer.findMany\<close>: an
  object \<^verbatim>\<open>{ [field]: { gt: value } }\<close>, or \<^verbatim>\<open>{ AND: [...] }\<close>, or \<^verbatim>\<open>{ OR: [...] }\<close>.
  An argument of a filter is the number \<^verbatim>\<open>parseFloat\<close>/\<^verbatim>\<open>parseInt\<close> returned, a
  \<^verbatim>\<open>Date\<close>, the raw \<^verbatim>\<open>value\<close> of the condition, or \<^verbatim>\<open>undefined\<close>.
\<close>

datatype fop = Gt | Gte | Lt | Lte | Equals | Contains | StartsWith | EndsWith

datatype 'n arg =
    ANumber "'n option"
  | ADate "'n option"
  | ARaw "'n jsvalue"
  | AUndefined

datatype 'n where_input =
    Where_field string "(fop \<times> 'n arg) list"
  | Where_AND "'n where_input list"
  | Where_OR "'n where_input list"

subsection \<open>The predicate builders\<close>

definition buildNumericCondition ::
  "string \<Rightarrow> 'n jsvalue \<Rightarrow> 'n option \<Rightarrow> 'n error + 'n where_input" where
  "buildNumericCondition field operator value =
     (if operator = JStr ''gt'' then Inr (Where_field field [(Gt, ANumber value)])
      else if operator = JStr ''gte'' then Inr (Where_field field [(Gte, ANumber value)])
      else if operator = JStr ''lt'' then Inr (Where_field field [(Lt, ANumber value)])
      else if operator = JStr ''lte'' then Inr (Where_field field [(Lte, ANumber value)])
      else if operator = JStr ''eq'' then Inr (Where_field field [(Equals, ANumber value)])
      else Inl (UnsupportedOperator operator))"

text \<open>
  \<^verbatim>\<open>value.split(',')\<close> is a \<open>TypeError\<close> unless \<^verbatim>\<open>value\<close> is a string: no other JSON
  value has a callable \<^verbatim>\<open>split\<close>.
\<close>

definition date_arg :: "'n option option \<Rightarrow> 'n arg" where
  "date_arg d = (case d of None \<Rightarrow> AUndefined | Some t \<Rightarrow> ADate t)"

definition buildDateCondition ::
  "'n runtime \<Rightarrow> string \<Rightarrow> 'n jsvalue \<Rightarrow> 'n jsvalue \<Rightarrow> 'n error + 'n where_input" where
  "buildDateCondition rt field operator value =
     (let date = newDate rt value; now = now rt in
      if operator = JStr ''before'' then Inr (Where_field field [(Lt, ADate date)])
      else if operator = JStr ''after'' then Inr (Where_field field [(Gt, ADate date)])
      else if operator = JStr ''between'' then
        (case value of
           JStr s \<Rightarrow>
             (let dates = map (\<lambda>d. newDate rt (JStr d)) (split CHR '','' s);
                  start = element dates 0; end = element dates 1
              in Inr (Where_field field [(Gte, date_arg start), (Lte, date_arg end)]))
         | _ \<Rightarrow> Inl TypeError)
      else if operator = JStr ''daysAgo'' then
        (let daysAgo = setDateBack rt now (parseInt rt value)
         in Inr (Where_field field [(Lt, ADate daysAgo)]))
      else Inl (UnsupportedOperator operator))"

definition buildStringCondition ::
  "string \<Rightarrow> 'n jsvalue \<Rightarrow> 'n jsvalue \<Rightarrow> 'n error + 'n where_input" where
  "buildStringCondition field operator value =
     (if operator = JStr ''contains'' then Inr (Where_field field [(Contains, ARaw value)])
      else if operator = JStr ''startsWith'' then Inr (Where_field field [(StartsWith, ARaw value)])
      else if operator = JStr ''endsWith'' then Inr (Where_field field [(EndsWith, ARaw value)])
      else if operator = JStr ''equals'' then Inr (Where_field field [(Equals, ARaw value)])
      else Inl (UnsupportedOperator operator))"

text \<open>
  \<^verbatim>\<open>const { field, operator, value } = condition\<close> raises a \<open>TypeError\<close> on \<^verbatim>\<open>null\<close>;
  the \<^verbatim>\<open>switch\<close> compares \<^verbatim>\<open>field\<close> with \<^verbatim>\<open>===\<close>, so only the four strings are
  recognized.
\<close>

definition buildCondition :: "'n runtime \<Rightarrow> 'n jsvalue \<Rightarrow> 'n error + 'n where_input" where
  "buildCondition rt condition =
     (case property condition ''field'' of
        Inl e \<Rightarrow> Inl e
      | Inr field \<Rightarrow>
         (case property condition ''operator'' of
            Inl e \<Rightarrow> Inl e
          | Inr operator \<Rightarrow>
             (case property condition ''value'' of
                Inl e \<Rightarrow> Inl e
              | Inr value \<Rightarrow>
                  if field = JStr ''totalSpend'' then
                    buildNumericCondition ''totalSpend'' operator (parseFloat rt value)
                  else if field = JStr ''visitCount'' then
                    buildNumericCondition ''visitCount'' operator (parseInt rt value)
                  else if field = JStr ''lastVisit'' then
                    buildDateCondition rt ''lastVisit'' operator value
                  else if field = JStr ''email'' then
                    buildStringCondition ''email'' operator value
                  else Inl (UnsupportedField field))))"

subsection \<open>The customer table and \<^verbatim>\<open>findMany\<close>\<close>

text \<open>
  Modelled from the spec: the declaration of the Customer table (the Prisma schema) is
  not among the sources. The spec's data model gives a customer an identity, contact
  fields, the numeric aggregates \<^verbatim>\<open>totalSpend\<close> and \<^verbatim>\<open>visitCount\<close>, the temporal field
  \<^verbatim>\<open>lastVisit\<close> and the text field \<^verbatim>\<open>email\<close>; the route \<^verbatim>\<open>GET /:id\<close> selects the same
  six columns.
\<close>

record 'n customer_row =
  row_id :: string
  row_name :: string
  email :: string
  totalSpend :: 'n
  visitCount :: 'n
  lastVisit :: 'n

datatype 'n cell = CNumber 'n | CDateTime 'n | CString string

definition column :: "'n customer_row \<Rightarrow> string \<Rightarrow> 'n cell option" where
  "column c f =
     (if f = ''totalSpend'' then Some (CNumber (totalSpend c))
      else if f = ''visitCount'' then Some (CNumber (visitCount c))
      else if f = ''lastVisit'' then Some (CDateTime (lastVisit c))
      else if f = ''email'' then Some (CString (email c))
      else if f = ''name'' then Some (CString (row_name c))
      else if f = ''id'' then Some (CString (row_id c))
      else None)"

text \<open>
  Prisma Client is a library, not code of the repository. Its filters are modelled by
  their documented meaning: \<^verbatim>\<open>gt\<close>, \<^verbatim>\<open>gte\<close>, \<^verbatim>\<open>lt\<close>, \<^verbatim>\<open>lte\<close> compare the column with the
  argument (strictly for \<^verbatim>\<open>gt\<close> and \<^verbatim>\<open>lt\<close>), \<^verbatim>\<open>equals\<close> is equality; the operators of one
  filter object hold together; an argument that is \<^verbatim>\<open>undefined\<close> is left out; \<^verbatim>\<open>AND\<close>
  holds when every member does and \<^verbatim>\<open>OR\<close> when at least one does. A bound that is \<^verbatim>\<open>NaN\<close>
  compares with no column value.
\<close>

fun compare :: "fop \<Rightarrow> 'n::linorder \<Rightarrow> 'n \<Rightarrow> bool" where
  "compare Gt x b = (b < x)"
| "compare Gte x b = (b \<le> x)"
| "compare Lt x b = (x < b)"
| "compare Lte x b = (x \<le> b)"
| "compare Equals x b = (x = b)"
| "compare _ x b = False"

text \<open>
  \<^verbatim>\<open>contains\<close>, \<^verbatim>\<open>startsWith\<close> and \<^verbatim>\<open>endsWith\<close> become a case-sensitive \<^verbatim>\<open>LIKE\<close> with
  the argument put between, before or after \<^verbatim>\<open>%\<close> as it is: a \<^verbatim>\<open>%\<close> in the pattern stands
  for any run of characters and a \<^verbatim>\<open>_\<close> for any one character, also when they come from
  the argument. (An escape character of the database is not modelled.)
\<close>

fun like :: "string \<Rightarrow> string \<Rightarrow> bool" where
  "like [] [] = True"
| "like [] (c # cs) = False"
| "like (p # ps) [] = (p = CHR ''%'' \<and> like ps [])"
| "like (p # ps) (c # cs) =
     (if p = CHR ''%'' then like ps (c # cs) \<or> like (p # ps) cs
      else (p = CHR ''_'' \<or> p = c) \<and> like ps cs)"

fun string_test :: "fop \<Rightarrow> string \<Rightarrow> string \<Rightarrow> bool" where
  "string_test Contains x s = like (''%'' @ s @ ''%'') x"
| "string_test StartsWith x s = like (s @ ''%'') x"
| "string_test EndsWith x s = like (''%'' @ s) x"
| "string_test Equals x s = (x = s)"
| "string_test _ x s = False"

fun holds_filter :: "'n::linorder cell \<Rightarrow> fop \<times> 'n arg \<Rightarrow> bool" where
  "holds_filter v (opr, AUndefined) = True"
| "holds_filter v (opr, ARaw JUndefined) = True"
| "holds_filter (CNumber x) (opr, ANumber (Some b)) = compare opr x b"
| "holds_filter (CDateTime x) (opr, ADate (Some b)) = compare opr x b"
| "holds_filter (CString x) (opr, ARaw (JStr s)) = string_test opr x s"
| "holds_filter v (opr, a) = False"

fun holds :: "'n::linorder where_input \<Rightarrow> 'n customer_row \<Rightarrow> bool" where
  "holds (Where_field f fs) c =
     (case column c f of None \<Rightarrow> False | Some v \<Rightarrow> list_all (holds_filter v) fs)"
| "holds (Where_AND ws) c = list_all (\<lambda>w. holds w c) ws"
| "holds (Where_OR ws) c = list_ex (\<lambda>w. holds w c) ws"

text \<open>
  The client validates a query before it reaches the database: an argument must be a
  value of the column's type. An invalid \<^verbatim>\<open>Date\<close>, a value that is neither a string nor
  \<^verbatim>\<open>undefined\<close> where a string is expected, and a column the table does not have, are
  rejected, whatever rows the table holds. A number that is \<^verbatim>\<open>NaN\<close> passes as a number.
\<close>

datatype ftype = TNumber | TDateTime | TString

definition field_type :: "string \<Rightarrow> ftype option" where
  "field_type f =
     (if f = ''totalSpend'' \<or> f = ''visitCount'' then Some TNumber
      else if f = ''lastVisit'' then Some TDateTime
      else if f = ''email'' \<or> f = ''name'' \<or> f = ''id'' then Some TString
      else None)"

fun accepted_filter :: "ftype \<Rightarrow> fop \<times> 'n arg \<Rightarrow> bool" where
  "accepted_filter t (opr, AUndefined) = True"
| "accepted_filter t (opr, ARaw JUndefined) = True"
| "accepted_filter t (opr, ANumber b) =
     (t = TNumber \<and> opr \<in> {Gt, Gte, Lt, Lte, Equals})"
| "accepted_filter t (opr, ADate (Some b)) =
     (t = TDateTime \<and> opr \<in> {Gt, Gte, Lt, Lte, Equals})"
| "accepted_filter t (opr, ARaw (JStr s)) =
     (t = TString \<and> opr \<in> {Contains, StartsWith, EndsWith, Equals})"
| "accepted_filter t (opr, a) = False"

fun accepted :: "'n where_input \<Rightarrow> bool" where
  "accepted (Where_field f fs) =
     (case field_type f of None \<Rightarrow> False | Some t \<Rightarrow> list_all (accepted_filter t) fs)"
| "accepted (Where_AND ws) = list_all accepted ws"
| "accepted (Where_OR ws) = list_all accepted ws"

definition findMany ::
  "'n::linorder customer_row list \<Rightarrow> 'n where_input \<Rightarrow> 'n error + 'n customer_row list" where
  "findMany table w =
     (if accepted w then Inr (filter (holds w) table) else Inl PrismaValidationError)"

subsection \<open>\<^verbatim>\<open>evaluateSegmentRules\<close>\<close>

text \<open>
  \<^verbatim>\<open>rules.conditions.map(condition => buildCondition(condition))\<close>: a \<open>TypeError\<close> when
  \<^verbatim>\<open>rules.conditions\<close> is not an array; the first condition that throws ends the map.
\<close>

fun mapE :: "('a \<Rightarrow> 'e + 'b) \<Rightarrow> 'a list \<Rightarrow> 'e + 'b list" where
  "mapE f [] = Inr []"
| "mapE f (x # xs) =
     (case f x of
        Inl e \<Rightarrow> Inl e
      | Inr y \<Rightarrow> (case mapE f xs of Inl e \<Rightarrow> Inl e | Inr ys \<Rightarrow> Inr (y # ys)))"

definition conditions_map ::
  "('n jsvalue \<Rightarrow> 'n error + 'b) \<Rightarrow> 'n jsvalue \<Rightarrow> 'n error + 'b list" where
  "conditions_map f conditions =
     (case conditions of JArr cs \<Rightarrow> mapE f cs | _ \<Rightarrow> Inl TypeError)"

text \<open>The first half of the function: the \<^verbatim>\<open>whereClause\<close> it builds before it queries.\<close>

definition whereClause :: "'n runtime \<Rightarrow> 'n jsvalue \<Rightarrow> 'n error + 'n where_input" where
  "whereClause rt rules =
     (case property rules ''type'' of
        Inl e \<Rightarrow> Inl e
      | Inr t \<Rightarrow>
          if t = JStr ''AND'' then
            (case property rules ''conditions'' of
               Inl e \<Rightarrow> Inl e
             | Inr conditions \<Rightarrow>
                 (case conditions_map (buildCondition rt) conditions of
                    Inl e \<Rightarrow> Inl e
                  | Inr ws \<Rightarrow> Inr (Where_AND ws)))
          else if t = JStr ''OR'' then
            (case property rules ''conditions'' of
               Inl e \<Rightarrow> Inl e
             | Inr conditions \<Rightarrow>
                 (case conditions_map (buildCondition rt) conditions of
                    Inl e \<Rightarrow> Inl e
                  | Inr ws \<Rightarrow> Inr (Where_OR ws)))
          else buildCondition rt rules)"

text \<open>
  The second half: the query, with \<^verbatim>\<open>select: { id: true }\<close>, and
  \<^verbatim>\<open>customers.map(c => c.id)\<close>. The \<^verbatim>\<open>catch\<close> logs and throws the error again.
\<close>

definition query_ids ::
  "'n::linorder customer_row list \<Rightarrow> 'n where_input \<Rightarrow> 'n error + string list" where
  "query_ids table w =
     (case findMany table w of Inl e \<Rightarrow> Inl e | Inr customers \<Rightarrow> Inr (map row_id customers))"

definition evaluateSegmentRules ::
  "'n::linorder runtime \<Rightarrow> 'n customer_row list \<Rightarrow> 'n jsvalue \<Rightarrow> 'n error + string list" where
  "evaluateSegmentRules rt table rules =
     (case whereClause rt rules of Inl e \<Rightarrow> Inl e | Inr w \<Rightarrow> query_ids table w)"

text \<open>
  What the function does with one condition on its own (its \<^verbatim>\<open>else\<close> branch): the
  matched set of that condition.
\<close>

definition evaluateCondition ::
  "'n::linorder runtime \<Rightarrow> 'n customer_row list \<Rightarrow> 'n jsvalue \<Rightarrow> 'n error + string list" where
  "evaluateCondition rt table condition =
     (case buildCondition rt condition of Inl e \<Rightarrow> Inl e | Inr w \<Rightarrow> query_ids table w)"


text \<open>The fields the \<^verbatim>\<open>switch\<close> of \<^verbatim>\<open>buildCondition\<close> has a case for.\<close>

definition recognized :: "'n jsvalue \<Rightarrow> bool" where
  "recognized field =
     (field \<in> {JStr ''totalSpend'', JStr ''visitCount'', JStr ''lastVisit'', JStr ''email''})"

text \<open>
  A condition selects a customer when it builds, the query is accepted and the customer
  satisfies the filter; it leaves the customer out when it builds, the query is accepted
  and the customer does not satisfy the filter.
\<close>

definition selects :: "'n::linorder runtime \<Rightarrow> 'n jsvalue \<Rightarrow> 'n customer_row \<Rightarrow> bool" where
  "selects rt condition c =
     (\<exists>w. buildCondition rt condition = Inr w \<and> accepted w \<and> holds w c)"

definition leaves_out :: "'n::linorder runtime \<Rightarrow> 'n jsvalue \<Rightarrow> 'n customer_row \<Rightarrow> bool" where
  "leaves_out rt condition c =
     (\<exists>w. buildCondition rt condition = Inr w \<and> accepted w \<and> \<not> holds w c)"

section \<open>Backend: the segment routes (routes/segments.js)\<close>

subsection \<open>The database\<close>

text \<open>
  Modelled from the spec: the declarations of the Segment table and of the table of
  memberships (\<^verbatim>\<open>prisma.customerSegment\<close>) are not among the sources. A segment row has
  the columns \<^verbatim>\<open>POST /\<close> writes; a membership row is the pair \<^verbatim>\<open>customerId\<close>,
  \<^verbatim>\<open>segmentId\<close> it writes. Database failures (a lost connection, a violated
  constraint) are outside the model: every write succeeds.
\<close>

record 'n segment_row =
  seg_id :: string
  seg_name :: string
  seg_description :: "string option"
  seg_rules :: "'n jsvalue"
  createdById :: string

record 'n db =
  customer_table :: "'n customer_row list"
  segment_table :: "'n segment_row list"
  customerSegment_table :: "(string \<times> string) list"

text \<open>
  \<^verbatim>\<open>prisma.customerSegment.createMany({ data, skipDuplicates: true })\<close>: the rows of
  \<^verbatim>\<open>data\<close> the table does not hold yet are added.
\<close>

definition createMany :: "(string \<times> string) list \<Rightarrow> (string \<times> string) list \<Rightarrow> (string \<times> string) list" where
  "createMany data rows = fold (\<lambda>r t. if r \<in> set t then t else t @ [r]) data rows"

text \<open>\<^verbatim>\<open>xs.slice(i, j)\<close> for \<open>0 \<le> i \<le> j\<close>.\<close>

definition slice :: "nat \<Rightarrow> nat \<Rightarrow> 'a list \<Rightarrow> 'a list" where
  "slice i j xs = take (j - i) (drop i xs)"

definition batchSize :: nat where
  "batchSize = 100"

text \<open>
  The loop \<^verbatim>\<open>for (let i = 0; i < matchingCustomers.length; i += batchSize)\<close>, one
  \<^verbatim>\<open>createMany\<close> for every batch.
\<close>

function add_batches :: "nat \<Rightarrow> string list \<Rightarrow> string \<Rightarrow> (string \<times> string) list \<Rightarrow> (string \<times> string) list" where
  "add_batches i matchingCustomers segmentId rows =
     (if i < length matchingCustomers then
        (let batch = slice i (i + batchSize) matchingCustomers
         in add_batches (i + batchSize) matchingCustomers segmentId
              (createMany (map (\<lambda>customerId. (customerId, segmentId)) batch) rows))
      else rows)"
  by pat_completeness auto
termination
  by (relation "measure (\<lambda>(i, matchingCustomers, segmentId, rows). length matchingCustomers - i)")
    (auto simp: batchSize_def)

declare add_batches.simps [simp del]

subsection \<open>Requests and responses\<close>

text \<open>
  The body of a request, as far as the routes read it: \<^verbatim>\<open>name\<close> and \<^verbatim>\<open>description\<close> are
  strings or absent, \<^verbatim>\<open>rules\<close> is any JSON value (\<open>JUndefined\<close> when absent);
  \<^verbatim>\<open>req.user.id\<close> is the authenticated user the middleware has set.
\<close>

record 'n request =
  body_name :: "string option"
  body_description :: "string option"
  body_rules :: "'n jsvalue"
  user_id :: string

datatype 'n response =
    Created "'n segment_row" nat
  | Preview nat "string list"
  | BadRequest
  | ServerError string

text \<open>
  The validators of express-validator. \<^verbatim>\<open>trim()\<close> strips the characters \<^verbatim>\<open>\s\<close>
  matches at both ends (of the characters of a string, the code units below 256, these
  are tab, line feed, vertical tab, form feed, carriage return, space and no-break
  space) and puts the result back into the body;
  \<^verbatim>\<open>notEmpty()\<close> fails on an absent and on an empty string; \<^verbatim>\<open>optional()\<close> skips an
  absent field; \<^verbatim>\<open>isObject()\<close> holds of an object that is neither \<^verbatim>\<open>null\<close> nor an array.
\<close>

definition is_space :: "char \<Rightarrow> bool" where
  "is_space c = (c \<in> {CHR 0x09, CHR 0x0A, CHR 0x0B, CHR 0x0C, CHR 0x0D, CHR '' '', CHR 0xA0})"

definition trim :: "string \<Rightarrow> string" where
  "trim s = rev (dropWhile is_space (rev (dropWhile is_space s)))"

definition notEmpty :: "string option \<Rightarrow> bool" where
  "notEmpty field = (case field of None \<Rightarrow> False | Some s \<Rightarrow> s \<noteq> [])"

fun isObject :: "'n jsvalue \<Rightarrow> bool" where
  "isObject (JObj kvs) = True"
| "isObject v = False"

subsection \<open>\<^verbatim>\<open>POST /\<close>: create a segment\<close>

text \<open>
  The request passes validation when the trimmed name is not empty and the rules are an
  object; the description is optional. The id of the new row is the database's to choose:
  \<open>new_id\<close>. The row is written first; the rules are evaluated next; an error of the evaluation is caught and answered
  with status 500, after the row was written.
\<close>

definition valid_create :: "'n request \<Rightarrow> bool" where
  "valid_create req = (notEmpty (map_option trim (body_name req)) \<and> isObject (body_rules req))"

text \<open>The \<^verbatim>\<open>data\<close> of \<^verbatim>\<open>prisma.segment.create\<close>, read from the sanitized body.\<close>

definition new_segment :: "string \<Rightarrow> 'n request \<Rightarrow> 'n segment_row" where
  "new_segment new_id req =
     \<lparr> seg_id = new_id,
       seg_name = (case map_option trim (body_name req) of None \<Rightarrow> [] | Some n \<Rightarrow> n),
       seg_description = map_option trim (body_description req),
       seg_rules = body_rules req, createdById = user_id req \<rparr>"

definition post_segment ::
  "'n::linorder runtime \<Rightarrow> string \<Rightarrow> 'n request \<Rightarrow> 'n db \<Rightarrow> 'n response \<times> 'n db" where
  "post_segment rt new_id req db =
     (if \<not> valid_create req then (BadRequest, db)
      else
        (let rules = body_rules req;
             segment = new_segment new_id req;
             db1 = db \<lparr> segment_table := segment_table db @ [segment] \<rparr>
         in case evaluateSegmentRules rt (customer_table db1) rules of
              Inl error \<Rightarrow> (ServerError ''Error creating segment'', db1)
            | Inr matchingCustomers \<Rightarrow>
                (Created segment (length matchingCustomers),
                 db1 \<lparr> customerSegment_table :=
                         add_batches 0 matchingCustomers (seg_id segment)
                           (customerSegment_table db1) \<rparr>)))"

subsection \<open>\<^verbatim>\<open>POST /preview\<close>\<close>


section \<open>Front end: the segments page and the customers page\<close>

subsection \<open>Records kept in \<^verbatim>\<open>localStorage\<close>\<close>

text \<open>
  The interfaces \<^verbatim>\<open>Customer\<close> and \<^verbatim>\<open>Segment\<close> of the pages. A number is an element of
  \<open>'n\<close> (never \<^verbatim>\<open>NaN\<close>: JSON has none); \<^verbatim>\<open>customerCount\<close> is the length of an array.
\<close>

record 'n Customer =
  customer_id :: string
  customer_name :: string
  customer_email :: string
  phone :: string
  totalPurchases :: 'n

record Segment =
  segment_id :: string
  segment_name :: string
  segment_description :: string
  customerCount :: nat
  segment_rules :: "string list"
  matchedCustomerIds :: "string list"

text \<open>
  \<^verbatim>\<open>localStorage\<close>: the keys \<^verbatim>\<open>"segments"\<close> and \<^verbatim>\<open>"customers"\<close>, each absent or holding
  the JSON text of an array (kept here as the array it parses to).
\<close>

record 'n storage =
  ls_segments :: "Segment list option"
  ls_customers :: "'n Customer list option"

subsection \<open>The values a rule compares\<close>

text \<open>
  What the browser's JavaScript engine provides and the pages rely on: \<^verbatim>\<open>Number(s)\<close> of a
  string (\<open>None\<close> when it is \<^verbatim>\<open>NaN\<close>), and the properties every object inherits from
  \<^verbatim>\<open>Object.prototype\<close> (\<^verbatim>\<open>constructor\<close>, \<^verbatim>\<open>toString\<close>, ...): \<open>inherited k\<close> is the string
  such an inherited value converts to when it is compared, \<open>None\<close> when no property
  \<open>k\<close> is inherited.
\<close>

record 'n engine =
  Number :: "string \<Rightarrow> 'n option"
  inherited :: "string \<Rightarrow> string option"

text \<open>
  \<^verbatim>\<open>customer[field]\<close> is a string, a number, \<^verbatim>\<open>undefined\<close> or an inherited object;
  \<^verbatim>\<open>parsedValue\<close> is a number, a string or \<^verbatim>\<open>undefined\<close>.
\<close>

datatype 'n fieldvalue = FUndefined | FNumber 'n | FString string | FInherited string

datatype 'n parsed = VUndefined | VNumber 'n | VString string

definition field_value :: "'n engine \<Rightarrow> 'n Customer \<Rightarrow> string \<Rightarrow> 'n fieldvalue" where
  "field_value eng customer field =
     (if field = ''id'' then FString (customer_id customer)
      else if field = ''name'' then FString (customer_name customer)
      else if field = ''email'' then FString (customer_email customer)
      else if field = ''phone'' then FString (phone customer)
      else if field = ''totalPurchases'' then FNumber (totalPurchases customer)
      else (case inherited eng field of None \<Rightarrow> FUndefined | Some s \<Rightarrow> FInherited s))"

text \<open>\<^verbatim>\<open>isNaN(Number(value)) ? value : Number(value)\<close>; \<^verbatim>\<open>Number(undefined)\<close> is \<^verbatim>\<open>NaN\<close>.\<close>

definition parsed_value :: "'n engine \<Rightarrow> string option \<Rightarrow> 'n parsed" where
  "parsed_value eng v =
     (case v of
        None \<Rightarrow> VUndefined
      | Some s \<Rightarrow> (case Number eng s of None \<Rightarrow> VString s | Some n \<Rightarrow> VNumber n))"

text \<open>
  The comparisons of the language. An operand is first made primitive (an inherited
  object becomes its string). \<^verbatim>\<open><\<close> compares two strings by their characters and
  anything else as numbers, and is false when either number is \<^verbatim>\<open>NaN\<close>; \<^verbatim>\<open>a > b\<close> is
  \<^verbatim>\<open>b < a\<close>. \<^verbatim>\<open>==\<close> holds of two equal values of the same type, and of a number and a string
  that converts to it; \<^verbatim>\<open>undefined\<close> equals only \<^verbatim>\<open>undefined\<close>.
\<close>

fun to_primitive :: "'n fieldvalue \<Rightarrow> 'n parsed" where
  "to_primitive FUndefined = VUndefined"
| "to_primitive (FNumber n) = VNumber n"
| "to_primitive (FString s) = VString s"
| "to_primitive (FInherited s) = VString s"

fun to_number :: "'n engine \<Rightarrow> 'n parsed \<Rightarrow> 'n option" where
  "to_number eng VUndefined = None"
| "to_number eng (VNumber n) = Some n"
| "to_number eng (VString s) = Number eng s"

fun less_than :: "'n::linorder engine \<Rightarrow> 'n parsed \<Rightarrow> 'n parsed \<Rightarrow> bool" where
  "less_than eng (VString a) (VString b) = (a < b)"
| "less_than eng a b =
     (case (to_number eng a, to_number eng b) of
        (Some x, Some y) \<Rightarrow> x < y
      | _ \<Rightarrow> False)"

fun loosely_equal :: "'n engine \<Rightarrow> 'n parsed \<Rightarrow> 'n parsed \<Rightarrow> bool" where
  "loosely_equal eng VUndefined VUndefined = True"
| "loosely_equal eng (VNumber x) (VNumber y) = (x = y)"
| "loosely_equal eng (VString a) (VString b) = (a = b)"
| "loosely_equal eng (VNumber x) (VString b) = (Number eng b = Some x)"
| "loosely_equal eng (VString a) (VNumber y) = (Number eng a = Some y)"
| "loosely_equal eng a b = False"

subsection \<open>\<^verbatim>\<open>getMatchedCustomers\<close>\<close>

text \<open>
  One rule against one customer: the body of \<^verbatim>\<open>rules.every\<close>. The rule is split at
  spaces; a missing token is \<^verbatim>\<open>undefined\<close>.
\<close>

definition rule_holds :: "'n::linorder engine \<Rightarrow> 'n Customer \<Rightarrow> string \<Rightarrow> bool" where
  "rule_holds eng customer rule =
     (let tokens = split CHR '' '' rule;
          field = element tokens 0; operator = element tokens 1; v = element tokens 2;
          fieldValue = (case field of None \<Rightarrow> FUndefined | Some f \<Rightarrow> field_value eng customer f);
          parsedValue = parsed_value eng v
      in if operator = Some ''>'' then less_than eng parsedValue (to_primitive fieldValue)
         else if operator = Some ''<'' then less_than eng (to_primitive fieldValue) parsedValue
         else if operator = Some ''='' \<or> operator = Some ''=='' then
           loosely_equal eng (to_primitive fieldValue) parsedValue
         else if operator = Some ''!='' then
           \<not> loosely_equal eng (to_primitive fieldValue) parsedValue
         else False)"

definition getMatchedCustomers ::
  "'n::linorder engine \<Rightarrow> 'n Customer list \<Rightarrow> string list \<Rightarrow> 'n Customer list" where
  "getMatchedCustomers eng customers rules =
     filter (\<lambda>customer. list_all (rule_holds eng customer) rules) customers"

text \<open>The keys of a \<^verbatim>\<open>Customer\<close>, and the operators the \<^verbatim>\<open>switch\<close> has a case for.\<close>

definition keys :: "string set" where
  "keys = {''id'', ''name'', ''email'', ''phone'', ''totalPurchases''}"

definition operators :: "string option set" where
  "operators = {Some ''>'', Some ''<'', Some ''='', Some ''=='', Some ''!=''}"

subsection \<open>The segments page\<close>

text \<open>
  The state of the page: the lists \<^verbatim>\<open>segments\<close> and \<^verbatim>\<open>customers\<close> it loaded, the form
  (\<^verbatim>\<open>name\<close>, \<^verbatim>\<open>description\<close>, \<^verbatim>\<open>rules\<close>), and the segment being edited.
\<close>

record 'n segments_page =
  st_segments :: "Segment list"
  st_customers :: "'n Customer list"
  st_name :: string
  st_description :: string
  st_rules :: "string list"
  isCreating :: bool
  editingId :: "string option"

text \<open>
  \<^verbatim>\<open>handleCreateSegment\<close> creates a segment, or replaces the one being edited. It returns
  the alert it shows, if any. \<open>now_string\<close> is \<^verbatim>\<open>Date.now().toString()\<close>. An \<^verbatim>\<open>editingId\<close> that
  is \<^verbatim>\<open>null\<close> or the empty string is falsy.
\<close>

definition editing :: "'n segments_page \<Rightarrow> string option" where
  "editing page = (case editingId page of None \<Rightarrow> None | Some e \<Rightarrow> if e = [] then None else Some e)"

definition handleCreateSegment ::
  "'n::linorder engine \<Rightarrow> string \<Rightarrow> 'n segments_page \<times> 'n storage
     \<Rightarrow> string option \<times> 'n segments_page \<times> 'n storage" where
  "handleCreateSegment eng now_string state =
     (let page = fst state; ls = snd state in
      if st_name page = [] \<or> st_description page = [] \<or> length (st_rules page) = 0 then
        (Some ''Please fill in all fields and define at least one rule.'', page, ls)
      else
        (let matched = getMatchedCustomers eng (st_customers page) (st_rules page);
             newSegment =
               \<lparr> segment_id = (case editing page of None \<Rightarrow> now_string | Some e \<Rightarrow> e),
                 segment_name = st_name page,
                 segment_description = st_description page,
                 customerCount = length matched,
                 segment_rules = st_rules page,
                 matchedCustomerIds = map customer_id matched \<rparr>;
             updatedSegments =
               (case editing page of
                  Some e \<Rightarrow> map (\<lambda>s. if segment_id s = e then newSegment else s) (st_segments page)
                | None \<Rightarrow> st_segments page @ [newSegment])
         in (None,
             page \<lparr> st_segments := updatedSegments, st_name := [], st_description := [], st_rules := [],
                    isCreating := False, editingId := None \<rparr>,
             ls \<lparr> ls_segments := Some updatedSegments \<rparr>)))"

text \<open>\<^verbatim>\<open>handleEdit\<close> loads a segment into the form; \<^verbatim>\<open>handleDelete\<close>, once confirmed, removes one.\<close>

definition handleEdit :: "Segment \<Rightarrow> 'n segments_page \<Rightarrow> 'n segments_page" where
  "handleEdit segment page =
     page \<lparr> editingId := Some (segment_id segment), st_name := segment_name segment,
            st_description := segment_description segment, st_rules := segment_rules segment,
            isCreating := True \<rparr>"

definition handleDelete ::
  "bool \<Rightarrow> string \<Rightarrow> 'n segments_page \<times> 'n storage \<Rightarrow> 'n segments_page \<times> 'n storage" where
  "handleDelete confirmed segmentId state =
     (let page = fst state; ls = snd state in
      if \<not> confirmed then (page, ls)
      else
        (let updatedSegments = filter (\<lambda>s. segment_id s \<noteq> segmentId) (st_segments page)
         in (page \<lparr> st_segments := updatedSegments \<rparr>, ls \<lparr> ls_segments := Some updatedSegments \<rparr>)))"

subsection \<open>The customers page\<close>

text \<open>
  \<^verbatim>\<open>updateSegmentCustomerCount\<close> reads the segments from \<^verbatim>\<open>localStorage\<close> (an absent key
  reads as the empty array), sets the \<^verbatim>\<open>customerCount\<close> of each, and writes them back.
  Its argument is the \<^verbatim>\<open>customers\<close> state of the page.
\<close>

definition updateSegmentCustomerCount ::
  "'n::{linorder,one} Customer list \<Rightarrow> 'n storage \<Rightarrow> 'n storage" where
  "updateSegmentCustomerCount customers ls =
     (let segments = (case ls_segments ls of None \<Rightarrow> [] | Some ss \<Rightarrow> ss);
          segments' =
            map (\<lambda>segment.
                   let customersInSegment = filter (\<lambda>customer. totalPurchases customer > 1) customers
                   in segment \<lparr> customerCount := length customersInSegment \<rparr>)
              segments
      in ls \<lparr> ls_segments := Some segments' \<rparr>)"

text \<open>
  \<^verbatim>\<open>handleMakePurchase\<close>: the page's state is the list of customers. \<^verbatim>\<open>setCustomers\<close>
  takes effect after the handler, so \<^verbatim>\<open>updateSegmentCustomerCount\<close> still sees the list
  as it was before the purchase.
\<close>

definition handleMakePurchase ::
  "string \<Rightarrow> 'n::{linorder,one,plus} Customer list \<times> 'n storage
     \<Rightarrow> 'n Customer list \<times> 'n storage" where
  "handleMakePurchase customerId state =
     (let customers = fst state; ls = snd state;
          updatedCustomers =
            map (\<lambda>customer.
                   if customer_id customer = customerId
                   then customer \<lparr> totalPurchases := totalPurchases customer + 1 \<rparr>
                   else customer)
              customers;
          ls1 = ls \<lparr> ls_customers := Some updatedCustomers \<rparr>
      in (updatedCustomers, updateSegmentCustomerCount customers ls1))"

subsection \<open>Names for what the handlers test and write\<close>

text \<open>
  The test \<^verbatim>\<open>!name || !description || rules.length === 0\<close> of \<^verbatim>\<open>handleCreateSegment\<close>, the
  object \<^verbatim>\<open>newSegment\<close> it builds (for the id \<open>sid\<close>), and the agreement of a segment's
  \<^verbatim>\<open>customerCount\<close> with its \<^verbatim>\<open>matchedCustomerIds\<close>.
\<close>

definition form_invalid :: "'n segments_page \<Rightarrow> bool" where
  "form_invalid page = (st_name page = [] \<or> st_description page = [] \<or> st_rules page = [])"

definition created_segment :: "'n::linorder engine \<Rightarrow> string \<Rightarrow> 'n segments_page \<Rightarrow> Segment" where
  "created_segment eng sid page =
     \<lparr> segment_id = sid, segment_name = st_name page, segment_description = st_description page,
       customerCount = length (getMatchedCustomers eng (st_customers page) (st_rules page)),
       segment_rules = st_rules page,
       matchedCustomerIds = map customer_id (getMatchedCustomers eng (st_customers page) (st_rules page)) \<rparr>"

definition count_consistent :: "Segment \<Rightarrow> bool" where
  "count_consistent s = (customerCount s = length (matchedCustomerIds s))"

subsection \<open>A runtime to evaluate with\<close>

text \<open>
  One runtime over the integers, for the evaluations at concrete inputs below. It agrees
  with the JavaScript builtins on the inputs used there: \<^verbatim>\<open>parseFloat\<close> and \<^verbatim>\<open>parseInt\<close>
  of a JSON integer and of a string of decimal digits are that integer, and of a string
  that begins with a letter \<^verbatim>\<open>NaN\<close>; \<^verbatim>\<open>new Date\<close> of an integer is the date with that time
  value; \<^verbatim>\<open>new Date("2024-01-01")\<close>, \<^verbatim>\<open>new Date("2024-03-01")\<close> and
  \<^verbatim>\<open>new Date("2024-06-01")\<close> are midnight UTC of these days in milliseconds, and of a
  string of letters an invalid date; going back \<open>n\<close> days takes \<open>n\<close> times 86400000
  milliseconds off (a clock in UTC).
\<close>

definition is_digit :: "char \<Rightarrow> bool" where
  "is_digit c = (CHR ''0'' \<le> c \<and> c \<le> CHR ''9'')"

definition decimal :: "string \<Rightarrow> int option" where
  "decimal s =
     (if s \<noteq> [] \<and> list_all is_digit s
      then Some (foldl (\<lambda>a c. 10 * a + (of_char c - 48)) 0 s) else None)"

definition sample_number :: "int jsvalue \<Rightarrow> int option" where
  "sample_number v = (case v of JNum n \<Rightarrow> Some n | JStr s \<Rightarrow> decimal s | _ \<Rightarrow> None)"

definition sample_date :: "int jsvalue \<Rightarrow> int option" where
  "sample_date v =
     (case v of
        JNum n \<Rightarrow> Some n
      | JStr s \<Rightarrow>
          (if s = ''2024-01-01'' then Some 1704067200000
           else if s = ''2024-03-01'' then Some 1709251200000
           else if s = ''2024-06-01'' then Some 1717200000000
           else None)
      | _ \<Rightarrow> None)"

definition sample_runtime :: "int runtime" where
  "sample_runtime =
     \<lparr> parseFloat = sample_number, parseInt = sample_number, newDate = sample_date,
       now = 1717200000000,
       setDateBack = (\<lambda>t n. case n of None \<Rightarrow> None | Some k \<Rightarrow> Some (t - 86400000 * k)) \<rparr>"

text \<open>A condition \<^verbatim>\<open>{ field, operator, value }\<close> and a tree \<^verbatim>\<open>{ type, conditions }\<close>.\<close>

definition Condition :: "string \<Rightarrow> string \<Rightarrow> 'n jsvalue \<Rightarrow> 'n jsvalue" where
  "Condition f opr v = JObj [(''field'', JStr f), (''operator'', JStr opr), (''value'', v)]"

definition RuleTree :: "string \<Rightarrow> 'n jsvalue list \<Rightarrow> 'n jsvalue" where
  "RuleTree t cs = JObj [(''type'', JStr t), (''conditions'', JArr cs)]"

text \<open>A customer table of seven rows, and a database that holds it.\<close>

definition fixture :: "int customer_row list" where
  "fixture =
     [\<lparr>row_id = ''1'', row_name = ''Asha'', email = ''asha@example.com'',
        totalSpend = 1200, visitCount = 3, lastVisit = 1709251200000\<rparr>,
      \<lparr>row_id = ''2'', row_name = ''Bo'', email = ''bo@example.com'',
        totalSpend = 50, visitCount = 1, lastVisit = 1704067200000\<rparr>,
      \<lparr>row_id = ''3'', row_name = ''Chen'', email = ''chen@example.org'',
        totalSpend = 800, visitCount = 5, lastVisit = 1717200000000\<rparr>,
      \<lparr>row_id = ''4'', row_name = ''Dee'', email = ''dee@example.org'',
        totalSpend = 900, visitCount = 1, lastVisit = 1704067200000\<rparr>,
      \<lparr>row_id = ''5'', row_name = ''Eli'', email = ''eli@example.com'',
        totalSpend = 10, visitCount = 9, lastVisit = 1709251200000\<rparr>,
      \<lparr>row_id = ''6'', row_name = ''Fay'', email = ''fay@example.com'',
        totalSpend = 20, visitCount = 1, lastVisit = 1704067200000\<rparr>,
      \<lparr>row_id = ''7'', row_name = ''Gus'', email = ''gus@example.org'',
        totalSpend = 30, visitCount = 2, lastVisit = 1717200000000\<rparr>]"

definition sample_db :: "int db" where
  "sample_db = \<lparr> customer_table = fixture, segment_table = [], customerSegment_table = [] \<rparr>"


text \<open>
  Two requests to create a segment: one whose rule is on the unknown field \<^verbatim>\<open>age\<close>, one
  with no description whose rule two customers of the table match.
\<close>

definition bad_create :: "int request" where
  "bad_create = \<lparr> body_name = Some ''Big spenders'', body_description = Some ''Spend a lot'',
      body_rules = Condition ''age'' ''gt'' (JNum 30), user_id = ''u1'' \<rparr>"

definition good_create :: "int request" where
  "good_create = \<lparr> body_name = Some '' Big spenders '', body_description = None,
      body_rules = RuleTree ''AND'' [Condition ''totalSpend'' ''gt'' (JNum 500),
                                     Condition ''visitCount'' ''gte'' (JStr ''3'')],
      user_id = ''u1'' \<rparr>"

subsection \<open>An engine, customers and a stored segment to evaluate the pages with\<close>

text \<open>
  The engine agrees with JavaScript on the inputs used below: \<^verbatim>\<open>Number\<close> of a string of
  decimal digits is that integer, of the empty string 0, and of a string that begins with
  a letter \<^verbatim>\<open>NaN\<close>; \<^verbatim>\<open>toString\<close> and \<^verbatim>\<open>constructor\<close> are inherited functions, and names
  such as \<^verbatim>\<open>age\<close> are not inherited.
\<close>

definition sample_engine :: "int engine" where
  "sample_engine =
     \<lparr> Number = (\<lambda>s. if s = [] then Some 0 else decimal s),
       inherited = (\<lambda>k. if k = ''toString'' then Some ''function toString() { [native code] }''
                        else if k = ''constructor'' then Some ''function Object() { [native code] }''
                        else None) \<rparr>"

definition sample_customers :: "int Customer list" where
  "sample_customers =
     [\<lparr>customer_id = ''a'', customer_name = ''Asha'', customer_email = ''asha@example.com'',
        phone = ''5550101'', totalPurchases = 5\<rparr>,
      \<lparr>customer_id = ''b'', customer_name = ''Bo'', customer_email = ''bo@example.com'',
        phone = ''5550102'', totalPurchases = 0\<rparr>]"

text \<open>
  What \<^verbatim>\<open>localStorage\<close> holds: the two customers, and one segment whose own rule
  \<^verbatim>\<open>totalPurchases > 100\<close> no customer satisfies.
\<close>

definition big_spenders :: Segment where
  "big_spenders =
     \<lparr> segment_id = ''s1'', segment_name = ''Big spenders'',
       segment_description = ''More than 100 purchases'', customerCount = 0,
       segment_rules = [''totalPurchases > 100''], matchedCustomerIds = [] \<rparr>"

definition sample_storage :: "int storage" where
  "sample_storage = \<lparr> ls_segments = Some [big_spenders], ls_customers = Some sample_customers \<rparr>"

text \<open>
  The segments page with a filled form, and a request to the backend with no description
  and a rule with zero conditions.
\<close>

definition sample_page :: "int segments_page" where
  "sample_page =
     \<lparr> st_segments = [big_spenders], st_customers = sample_customers, st_name = ''Buyers'',
       st_description = ''Bought more than once'', st_rules = [''totalPurchases > 1''],
       isCreating = True, editingId = None \<rparr>"

definition lax_create :: "int request" where
  "lax_create = \<lparr> body_name = Some ''Everyone'', body_description = None,
      body_rules = RuleTree ''AND'' [], user_id = ''u1'' \<rparr>"

lemma property_Condition:
  "property (Condition f opr v) ''field'' = Inr (JStr f)"
  "property (Condition f opr v) ''operator'' = Inr (JStr opr)"
  "property (Condition f opr v) ''value'' = Inr v"
  "property (Condition f opr v) ''type'' = Inr JUndefined"
  by (simp_all add: Condition_def)

lemma property_RuleTree:
  "property (RuleTree t cs) ''type'' = Inr (JStr t)"
  "property (RuleTree t cs) ''conditions'' = Inr (JArr cs)"
  "property (RuleTree t cs) ''field'' = Inr JUndefined"
  by (simp_all add: RuleTree_def)

section \<open>The predicate builder\<close>

lemma buildNumericCondition_supported:
  assumes "operator \<in> {JStr ''gt'', JStr ''gte'', JStr ''lt'', JStr ''lte'', JStr ''eq''}"
  shows "\<exists>opr \<in> {Gt, Gte, Lt, Lte, Equals}.
           buildNumericCondition f operator b = Inr (Where_field f [(opr, ANumber b)])"
  using assms by (auto simp: buildNumericCondition_def)

lemma buildNumericCondition_unsupported:
  assumes "operator \<notin> {JStr ''gt'', JStr ''gte'', JStr ''lt'', JStr ''lte'', JStr ''eq''}"
  shows "buildNumericCondition f operator b = Inl (UnsupportedOperator operator)"
  using assms by (simp add: buildNumericCondition_def)

lemma buildCondition_numeric:
  assumes "property condition ''field'' = Inr (JStr f)"
    and "property condition ''operator'' = Inr operator"
    and "property condition ''value'' = Inr value"
  shows "f = ''totalSpend'' \<Longrightarrow>
           buildCondition rt condition = buildNumericCondition ''totalSpend'' operator (parseFloat rt value)"
    and "f = ''visitCount'' \<Longrightarrow>
           buildCondition rt condition = buildNumericCondition ''visitCount'' operator (parseInt rt value)"
  using assms by (simp_all add: buildCondition_def)

text \<open>
  C4, as the code has it. For a condition on \<^verbatim>\<open>totalSpend\<close> or \<^verbatim>\<open>visitCount\<close>: with an
  operator outside gt/gte/lt/lte/eq, building fails with the unsupported-operator error;
  with one of these five operators building succeeds whatever the value is, and the bound
  of the filter is what \<^verbatim>\<open>parseFloat\<close> (for \<^verbatim>\<open>totalSpend\<close>) or \<^verbatim>\<open>parseInt\<close> (for
  \<^verbatim>\<open>visitCount\<close>) returned, \<^verbatim>\<open>NaN\<close> included: no error reports a value that is not
  coercible to a number.
\<close>

theorem numeric_condition_build:
  assumes "property condition ''field'' = Inr (JStr f)"
    and "f = ''totalSpend'' \<or> f = ''visitCount''"
    and "property condition ''operator'' = Inr operator"
    and "property condition ''value'' = Inr v"
  shows "(operator \<notin> {JStr ''gt'', JStr ''gte'', JStr ''lt'', JStr ''lte'', JStr ''eq''} \<longrightarrow>
            buildCondition rt condition = Inl (UnsupportedOperator operator)) \<and>
         (operator \<in> {JStr ''gt'', JStr ''gte'', JStr ''lt'', JStr ''lte'', JStr ''eq''} \<longrightarrow>
            (\<exists>opr \<in> {Gt, Gte, Lt, Lte, Equals}.
               buildCondition rt condition =
                 Inr (Where_field f
                   [(opr, ANumber (if f = ''totalSpend'' then parseFloat rt v
                                   else parseInt rt v))])))"
proof (cases "f = ''totalSpend''")
  case True
  have "buildCondition rt condition =
          buildNumericCondition ''totalSpend'' operator (parseFloat rt v)"
    using buildCondition_numeric(1)[OF assms(1,3,4) True] .
  then show ?thesis
    using True buildNumericCondition_supported[of operator "''totalSpend''" "parseFloat rt v"]
      buildNumericCondition_unsupported[of operator "''totalSpend''" "parseFloat rt v"]
    by auto
next
  case False
  then have vc: "f = ''visitCount''" using assms(2) by simp
  have "buildCondition rt condition =
          buildNumericCondition ''visitCount'' operator (parseInt rt v)"
    using buildCondition_numeric(2)[OF assms(1,3,4) vc] .
  then show ?thesis
    using vc buildNumericCondition_supported[of operator "''visitCount''" "parseInt rt v"]
      buildNumericCondition_unsupported[of operator "''visitCount''" "parseInt rt v"]
    by auto
qed

theorem numeric_condition_build_witness:
  "buildCondition sample_runtime (Condition ''visitCount'' ''like'' (JNum 3))
     = Inl (UnsupportedOperator (JStr ''like'')) \<and>
   (\<exists>opr \<in> {Gt, Gte, Lt, Lte, Equals}.
      buildCondition sample_runtime (Condition ''totalSpend'' ''gte'' (JStr ''abc''))
        = Inr (Where_field ''totalSpend'' [(opr, ANumber None)]))"
proof -
  have "buildCondition sample_runtime (Condition ''visitCount'' ''like'' (JNum 3))
          = Inl (UnsupportedOperator (JStr ''like''))"
    using numeric_condition_build[where condition = "Condition ''visitCount'' ''like'' (JNum 3)"
        and f = "''visitCount''" and operator = "JStr ''like''" and v = "JNum 3"
        and rt = sample_runtime]
    by (simp add: property_Condition)
  moreover have "\<exists>opr \<in> {Gt, Gte, Lt, Lte, Equals}.
      buildCondition sample_runtime (Condition ''totalSpend'' ''gte'' (JStr ''abc''))
        = Inr (Where_field ''totalSpend'' [(opr, ANumber None)])"
    using numeric_condition_build[where condition = "Condition ''totalSpend'' ''gte'' (JStr ''abc'')"
        and f = "''totalSpend''" and operator = "JStr ''gte''" and v = "JStr ''abc''"
        and rt = sample_runtime]
    by (simp add: property_Condition sample_runtime_def sample_number_def decimal_def is_digit_def)
  ultimately show ?thesis by blast
qed

text \<open>
  The value \<^verbatim>\<open>"abc"\<close> is not coercible to a number (\<^verbatim>\<open>parseFloat("abc")\<close> is \<^verbatim>\<open>NaN\<close>), and
  \<^verbatim>\<open>buildCondition({ field: "totalSpend", operator: "gt", value: "abc" })\<close> returns the
  filter \<^verbatim>\<open>{ totalSpend: { gt: NaN } }\<close>: it does not fail.
\<close>

theorem non_numeric_value_builds:
  "parseFloat sample_runtime (JStr ''abc'') = None \<and>
   buildCondition sample_runtime (Condition ''totalSpend'' ''gt'' (JStr ''abc''))
     = Inr (Where_field ''totalSpend'' [(Gt, ANumber None)])"
  by (simp add: buildCondition_def buildNumericCondition_def Condition_def
      sample_runtime_def sample_number_def decimal_def is_digit_def)

section \<open>The rule evaluator\<close>

lemma mapE_fails:
  assumes "\<forall>y \<in> set pre. \<exists>z. f y = Inr z" and "f x = Inl e"
  shows "mapE f (pre @ x # post) = Inl e"
  using assms by (induction pre) auto

lemma mapE_Inl_member:
  "mapE f xs = Inl e \<Longrightarrow> \<exists>x \<in> set xs. f x = Inl e"
  by (induction xs) (auto split: sum.splits)













lemma property_defined:
  "property c k = Inr v \<Longrightarrow> \<exists>v'. property c k' = Inr v'"
  by (cases c) auto

lemma buildCondition_unrecognized:
  assumes "property c ''field'' = Inr field" and "\<not> recognized field"
  shows "buildCondition rt c = Inl (UnsupportedField field)"
proof -
  obtain operator v where "property c ''operator'' = Inr operator" "property c ''value'' = Inr v"
    using property_defined[OF assms(1)] by blast
  then show ?thesis
    using assms by (simp add: buildCondition_def recognized_def)
qed

lemma mapE_first_failure:
  assumes "i < length xs" and "f (xs ! i) = Inl e"
  shows "\<exists>k \<le> i. \<exists>e'. f (xs ! k) = Inl e' \<and> (\<forall>j < k. \<exists>y. f (xs ! j) = Inr y) \<and>
           mapE f xs = Inl e'"
proof -
  define k where "k = (LEAST k. \<exists>e'. f (xs ! k) = Inl e')"
  have ex: "\<exists>e'. f (xs ! i) = Inl e'" using assms(2) by blast
  have k: "\<exists>e'. f (xs ! k) = Inl e'"
    unfolding k_def using ex by (rule LeastI)
  have ki: "k \<le> i"
    unfolding k_def using ex by (rule Least_le)
  have before: "\<exists>y. f (xs ! j) = Inr y" if "j < k" for j
  proof -
    have "\<not> (\<exists>e'. f (xs ! j) = Inl e')"
      using that not_less_Least unfolding k_def by blast
    then show ?thesis by (cases "f (xs ! j)") auto
  qed
  from k obtain e' where e': "f (xs ! k) = Inl e'" by blast
  have klen: "k < length xs" using ki assms(1) by simp
  have split: "xs = take k xs @ xs ! k # drop (Suc k) xs"
    using klen by (simp add: id_take_nth_drop)
  have pre: "\<forall>y \<in> set (take k xs). \<exists>z. f y = Inr z"
  proof
    fix y assume "y \<in> set (take k xs)"
    then obtain j where "j < k" "y = xs ! j"
      using klen by (auto simp: in_set_conv_nth)
    then show "\<exists>z. f y = Inr z" using before by simp
  qed
  have "mapE f xs = Inl e'"
    using mapE_fails[of "take k xs" f "xs ! k" e' "drop (Suc k) xs", OF pre e'] split by simp
  with e' before ki show ?thesis by blast
qed


lemmas evaluate_simps =
  evaluateCondition_def buildCondition_def buildNumericCondition_def buildDateCondition_def
  buildStringCondition_def Condition_def RuleTree_def query_ids_def findMany_def column_def
  field_type_def sample_runtime_def sample_number_def sample_date_def decimal_def is_digit_def
  fixture_def





subsection \<open>Conditions that fail to build\<close>

text \<open>
  C3, as the code has it. A rule tree (\<^verbatim>\<open>AND\<close> or \<^verbatim>\<open>OR\<close>) with a condition at index \<open>i\<close>
  whose field is not recognized never evaluates: \<^verbatim>\<open>map\<close> stops at the first condition (at
  an index \<open>k\<close> up to \<open>i\<close>) that fails to build, the error is that condition's, which is
  the unsupported-field error when the condition at \<open>i\<close> is the first to fail; the failure
  happens while the where-input is built, so the query is never issued and the outcome is
  the same error for every customer table. A bare condition with an unrecognized field
  fails with the unsupported-field error in the same way.
\<close>

theorem unrecognized_field_aborts:
  "(property rules ''type'' = Inr (JStr t) \<longrightarrow> t = ''AND'' \<or> t = ''OR'' \<longrightarrow>
    property rules ''conditions'' = Inr (JArr cs) \<longrightarrow>
    i < length cs \<longrightarrow> property (cs ! i) ''field'' = Inr field \<longrightarrow> \<not> recognized field \<longrightarrow>
      (\<exists>k \<le> i. \<exists>e. buildCondition rt (cs ! k) = Inl e \<and>
         (\<forall>j < k. \<exists>w. buildCondition rt (cs ! j) = Inr w) \<and>
         (k = i \<longrightarrow> e = UnsupportedField field) \<and>
         whereClause rt rules = Inl e \<and>
         (\<forall>table. evaluateSegmentRules rt table rules = Inl e))) \<and>
   (property rules ''type'' = Inr ty \<longrightarrow> ty \<noteq> JStr ''AND'' \<longrightarrow> ty \<noteq> JStr ''OR'' \<longrightarrow>
    property rules ''field'' = Inr field \<longrightarrow> \<not> recognized field \<longrightarrow>
      whereClause rt rules = Inl (UnsupportedField field) \<and>
      (\<forall>table. evaluateSegmentRules rt table rules = Inl (UnsupportedField field)))"
proof (intro conjI impI)
  assume t: "property rules ''type'' = Inr (JStr t)" "t = ''AND'' \<or> t = ''OR''"
    and c: "property rules ''conditions'' = Inr (JArr cs)"
    and i: "i < length cs" "property (cs ! i) ''field'' = Inr field" "\<not> recognized field"
  have bad: "buildCondition rt (cs ! i) = Inl (UnsupportedField field)"
    using buildCondition_unrecognized[OF i(2,3)] .
  obtain k e where k: "k \<le> i" "buildCondition rt (cs ! k) = Inl e"
      "\<forall>j < k. \<exists>w. buildCondition rt (cs ! j) = Inr w" "mapE (buildCondition rt) cs = Inl e"
    using mapE_first_failure[of i cs "buildCondition rt", OF i(1) bad] by blast
  have w: "whereClause rt rules = Inl e"
    using t c k(4) by (auto simp: whereClause_def conditions_map_def)
  then have ev: "\<forall>table. evaluateSegmentRules rt table rules = Inl e"
    by (simp add: evaluateSegmentRules_def)
  have "k = i \<longrightarrow> e = UnsupportedField field"
    using bad k(2) by auto
  with k w ev show "\<exists>k \<le> i. \<exists>e. buildCondition rt (cs ! k) = Inl e \<and>
         (\<forall>j < k. \<exists>w. buildCondition rt (cs ! j) = Inr w) \<and>
         (k = i \<longrightarrow> e = UnsupportedField field) \<and>
         whereClause rt rules = Inl e \<and>
         (\<forall>table. evaluateSegmentRules rt table rules = Inl e)"
    by blast
next
  assume t: "property rules ''type'' = Inr ty" "ty \<noteq> JStr ''AND''" "ty \<noteq> JStr ''OR''"
    and f: "property rules ''field'' = Inr field" "\<not> recognized field"
  show w: "whereClause rt rules = Inl (UnsupportedField field)"
    using t buildCondition_unrecognized[OF f] by (simp add: whereClause_def)
  then show "\<forall>table. evaluateSegmentRules rt table rules = Inl (UnsupportedField field)"
    by (simp add: evaluateSegmentRules_def)
qed

theorem unrecognized_field_aborts_witness:
  "(\<forall>table. evaluateSegmentRules sample_runtime table
      (RuleTree ''OR'' [Condition ''totalSpend'' ''gt'' (JNum 500),
                        Condition ''age'' ''gt'' (JNum 5)])
      = Inl (UnsupportedField (JStr ''age''))) \<and>
   (\<forall>table. evaluateSegmentRules sample_runtime table (Condition ''age'' ''gt'' (JNum 5))
      = Inl (UnsupportedField (JStr ''age'')))"
proof -
  let ?c1 = "Condition ''totalSpend'' ''gt'' (JNum (500::int))"
  let ?c2 = "Condition ''age'' ''gt'' (JNum (5::int))"
  have nr: "\<not> recognized (JStr ''age'' :: int jsvalue)"
    by (simp add: recognized_def)
  have ok: "\<exists>w. buildCondition sample_runtime ?c1 = Inr w"
    by (simp add: buildCondition_def buildNumericCondition_def Condition_def)
  note a = unrecognized_field_aborts[where rules = "RuleTree ''OR'' [?c1, ?c2]" and t = "''OR''"
      and cs = "[?c1, ?c2]" and i = 1 and field = "JStr ''age''" and rt = sample_runtime,
      THEN conjunct1]
  have "\<exists>k \<le> (1::nat). \<exists>e. buildCondition sample_runtime ([?c1, ?c2] ! k) = Inl e \<and>
         (\<forall>j < k. \<exists>w. buildCondition sample_runtime ([?c1, ?c2] ! j) = Inr w) \<and>
         (k = 1 \<longrightarrow> e = UnsupportedField (JStr ''age'')) \<and>
         whereClause sample_runtime (RuleTree ''OR'' [?c1, ?c2]) = Inl e \<and>
         (\<forall>table. evaluateSegmentRules sample_runtime table (RuleTree ''OR'' [?c1, ?c2]) = Inl e)"
    using a nr by (simp add: property_RuleTree property_Condition)
  then obtain k e where k: "k \<le> (1::nat)" "buildCondition sample_runtime ([?c1, ?c2] ! k) = Inl e"
    "k = 1 \<longrightarrow> e = UnsupportedField (JStr ''age'')"
    "\<forall>table. evaluateSegmentRules sample_runtime table (RuleTree ''OR'' [?c1, ?c2]) = Inl e"
    by blast
  have "k \<noteq> 0" using k(2) ok by (cases k) auto
  with k(1) have "k = 1" by simp
  with k have 1: "\<forall>table. evaluateSegmentRules sample_runtime table (RuleTree ''OR'' [?c1, ?c2])
      = Inl (UnsupportedField (JStr ''age''))" by simp
  note b = unrecognized_field_aborts[where rules = ?c2 and ty = JUndefined
      and field = "JStr ''age''" and rt = sample_runtime, THEN conjunct2]
  have 2: "\<forall>table. evaluateSegmentRules sample_runtime table ?c2 = Inl (UnsupportedField (JStr ''age''))"
    using b nr by (simp add: property_Condition)
  from 1 2 show ?thesis by blast
qed

text \<open>
  A tree with a condition on the unknown field \<^verbatim>\<open>age\<close>, after a condition with the
  unknown operator \<^verbatim>\<open>like\<close>: the evaluation fails with the unsupported-operator error, not
  with the unsupported-field error.
\<close>

theorem earlier_error_wins:
  "evaluateSegmentRules sample_runtime fixture
     (RuleTree ''AND'' [Condition ''totalSpend'' ''like'' (JNum 5),
                        Condition ''age'' ''gt'' (JNum 5)])
     = Inl (UnsupportedOperator (JStr ''like''))"
  by (simp add: evaluateSegmentRules_def whereClause_def conditions_map_def
      buildCondition_def buildNumericCondition_def Condition_def RuleTree_def)

section \<open>Boundaries of the comparisons\<close>

lemma buildCondition_Condition:
  "buildCondition rt (Condition ''totalSpend'' opr v)
     = buildNumericCondition ''totalSpend'' (JStr opr) (parseFloat rt v)"
  "buildCondition rt (Condition ''visitCount'' opr v)
     = buildNumericCondition ''visitCount'' (JStr opr) (parseInt rt v)"
  "buildCondition rt (Condition ''lastVisit'' opr v)
     = buildDateCondition rt ''lastVisit'' (JStr opr) v"
  "buildCondition rt (Condition ''email'' opr v)
     = buildStringCondition ''email'' (JStr opr) v"
  by (simp_all add: buildCondition_def Condition_def)

lemma numeric_boundary:
  assumes "f = ''totalSpend'' \<and> parseFloat rt v = Some (totalSpend c) \<or>
           f = ''visitCount'' \<and> parseInt rt v = Some (visitCount c)"
  shows "selects rt (Condition f ''gte'' v) c" "selects rt (Condition f ''lte'' v) c"
    "leaves_out rt (Condition f ''gt'' v) c" "leaves_out rt (Condition f ''lt'' v) c"
  using assms
  by (auto simp: selects_def leaves_out_def buildCondition_Condition buildNumericCondition_def
      field_type_def column_def)

lemma date_boundary:
  assumes "newDate rt v = Some (lastVisit c)"
  shows "leaves_out rt (Condition ''lastVisit'' ''before'' v) c"
    "leaves_out rt (Condition ''lastVisit'' ''after'' v) c"
  using assms
  by (auto simp: leaves_out_def buildCondition_Condition buildDateCondition_def
      field_type_def column_def)

lemma between_build:
  assumes "split CHR '','' s = d1 # d2 # rest"
    and "newDate rt (JStr d1) = Some lo" and "newDate rt (JStr d2) = Some hi"
  shows "buildCondition rt (Condition ''lastVisit'' ''between'' (JStr s))
           = Inr (Where_field ''lastVisit'' [(Gte, ADate (Some lo)), (Lte, ADate (Some hi))])"
  using assms
  by (simp add: buildCondition_Condition buildDateCondition_def element_def date_arg_def)

lemma between_holds:
  "holds (Where_field ''lastVisit'' [(Gte, ADate (Some lo)), (Lte, ADate (Some hi))]) c
     \<longleftrightarrow> lo \<le> lastVisit c \<and> lastVisit c \<le> hi"
  by (simp add: column_def)

lemma between_accepted:
  "accepted (Where_field ''lastVisit'' [(Gte, ADate (Some lo)), (Lte, ADate (Some hi))])"
  by (simp add: field_type_def)

text \<open>
  C6. For every customer \<open>c\<close>: a numeric condition on \<^verbatim>\<open>totalSpend\<close> or \<^verbatim>\<open>visitCount\<close>
  whose value parses to exactly the customer's field value selects the customer under
  \<^verbatim>\<open>gte\<close> and \<^verbatim>\<open>lte\<close> and leaves it out under \<^verbatim>\<open>gt\<close> and \<^verbatim>\<open>lt\<close>; a date condition
  whose value is exactly the customer's \<^verbatim>\<open>lastVisit\<close> leaves it out under \<^verbatim>\<open>before\<close> and
  \<^verbatim>\<open>after\<close>; and \<^verbatim>\<open>between\<close> with the endpoints \<open>lo\<close> and \<open>hi\<close> builds the two tests
  \<^verbatim>\<open>gte lo\<close> and \<^verbatim>\<open>lte hi\<close>, each of which accepts a value equal to its endpoint, and
  selects exactly the customers with \<open>lo \<le> lastVisit \<le> hi\<close>: a \<^verbatim>\<open>lastVisit\<close> equal to
  either endpoint is selected (whenever the range is not reversed).
\<close>

theorem boundary_semantics:
  fixes c :: "'n::linorder customer_row"
  shows
    "(f = ''totalSpend'' \<and> parseFloat rt v = Some (totalSpend c) \<or>
      f = ''visitCount'' \<and> parseInt rt v = Some (visitCount c) \<longrightarrow>
        selects rt (Condition f ''gte'' v) c \<and> selects rt (Condition f ''lte'' v) c \<and>
        leaves_out rt (Condition f ''gt'' v) c \<and> leaves_out rt (Condition f ''lt'' v) c) \<and>
     (newDate rt v = Some (lastVisit c) \<longrightarrow>
        leaves_out rt (Condition ''lastVisit'' ''before'' v) c \<and>
        leaves_out rt (Condition ''lastVisit'' ''after'' v) c) \<and>
     (split CHR '','' s = d1 # d2 # rest \<longrightarrow>
      newDate rt (JStr d1) = Some lo \<longrightarrow> newDate rt (JStr d2) = Some hi \<longrightarrow>
        (selects rt (Condition ''lastVisit'' ''between'' (JStr s)) c
           \<longleftrightarrow> lo \<le> lastVisit c \<and> lastVisit c \<le> hi) \<and>
        (leaves_out rt (Condition ''lastVisit'' ''between'' (JStr s)) c
           \<longleftrightarrow> \<not> (lo \<le> lastVisit c \<and> lastVisit c \<le> hi)) \<and>
        (lo \<le> hi \<longrightarrow> lastVisit c = lo \<or> lastVisit c = hi \<longrightarrow>
           selects rt (Condition ''lastVisit'' ''between'' (JStr s)) c) \<and>
        buildCondition rt (Condition ''lastVisit'' ''between'' (JStr s))
          = Inr (Where_field ''lastVisit'' [(Gte, ADate (Some lo)), (Lte, ADate (Some hi))]) \<and>
        holds_filter (CDateTime lo) (Gte, ADate (Some lo)) \<and>
        holds_filter (CDateTime hi) (Lte, ADate (Some hi)))"
proof (intro conjI impI)
  assume n: "f = ''totalSpend'' \<and> parseFloat rt v = Some (totalSpend c) \<or>
      f = ''visitCount'' \<and> parseInt rt v = Some (visitCount c)"
  show "selects rt (Condition f ''gte'' v) c" using numeric_boundary(1)[OF n] .
  show "selects rt (Condition f ''lte'' v) c" using numeric_boundary(2)[OF n] .
  show "leaves_out rt (Condition f ''gt'' v) c" using numeric_boundary(3)[OF n] .
  show "leaves_out rt (Condition f ''lt'' v) c" using numeric_boundary(4)[OF n] .
next
  assume d: "newDate rt v = Some (lastVisit c)"
  show "leaves_out rt (Condition ''lastVisit'' ''before'' v) c" using date_boundary(1)[OF d] .
  show "leaves_out rt (Condition ''lastVisit'' ''after'' v) c" using date_boundary(2)[OF d] .
next
  assume b: "split CHR '','' s = d1 # d2 # rest" "newDate rt (JStr d1) = Some lo"
    "newDate rt (JStr d2) = Some hi"
  note w = between_build[OF b]
  show sel: "selects rt (Condition ''lastVisit'' ''between'' (JStr s)) c
           \<longleftrightarrow> lo \<le> lastVisit c \<and> lastVisit c \<le> hi"
    by (simp add: selects_def w between_holds between_accepted del: holds.simps accepted.simps)
  show "leaves_out rt (Condition ''lastVisit'' ''between'' (JStr s)) c
           \<longleftrightarrow> \<not> (lo \<le> lastVisit c \<and> lastVisit c \<le> hi)"
    by (simp add: leaves_out_def w between_holds between_accepted del: holds.simps accepted.simps)
  show "buildCondition rt (Condition ''lastVisit'' ''between'' (JStr s))
          = Inr (Where_field ''lastVisit'' [(Gte, ADate (Some lo)), (Lte, ADate (Some hi))])"
    using w .
  show "holds_filter (CDateTime lo) (Gte, ADate (Some lo))"
    and "holds_filter (CDateTime hi) (Lte, ADate (Some hi))"
    by simp_all
  assume "lo \<le> hi" "lastVisit c = lo \<or> lastVisit c = hi"
  then show "selects rt (Condition ''lastVisit'' ''between'' (JStr s)) c"
    unfolding sel by auto
qed

theorem boundary_semantics_witness:
  "selects sample_runtime (Condition ''totalSpend'' ''gte'' (JStr ''800'')) (fixture ! 2) \<and>
   selects sample_runtime (Condition ''visitCount'' ''lte'' (JNum 5)) (fixture ! 2) \<and>
   leaves_out sample_runtime (Condition ''totalSpend'' ''gt'' (JStr ''800'')) (fixture ! 2) \<and>
   leaves_out sample_runtime (Condition ''visitCount'' ''lt'' (JNum 5)) (fixture ! 2) \<and>
   leaves_out sample_runtime (Condition ''lastVisit'' ''before'' (JStr ''2024-06-01'')) (fixture ! 2) \<and>
   leaves_out sample_runtime (Condition ''lastVisit'' ''after'' (JStr ''2024-06-01'')) (fixture ! 2) \<and>
   selects sample_runtime (Condition ''lastVisit'' ''between'' (JStr ''2024-01-01,2024-03-01''))
     (fixture ! 0) \<and>
   selects sample_runtime (Condition ''lastVisit'' ''between'' (JStr ''2024-01-01,2024-03-01''))
     (fixture ! 1)"
proof -
  have sp: "split CHR '','' ''2024-01-01,2024-03-01'' = [''2024-01-01'', ''2024-03-01'']"
    by simp
  have d: "newDate sample_runtime (JStr ''2024-01-01'') = Some 1704067200000"
    "newDate sample_runtime (JStr ''2024-03-01'') = Some 1709251200000"
    "newDate sample_runtime (JStr ''2024-06-01'') = Some (lastVisit (fixture ! 2))"
    by (simp_all add: sample_runtime_def sample_date_def fixture_def)
  have n: "parseFloat sample_runtime (JStr ''800'') = Some (totalSpend (fixture ! 2))"
    "parseInt sample_runtime (JNum 5) = Some (visitCount (fixture ! 2))"
    by (simp_all add: sample_runtime_def sample_number_def decimal_def is_digit_def fixture_def)
  have v: "lastVisit (fixture ! 0) = 1709251200000" "lastVisit (fixture ! 1) = 1704067200000"
    by (simp_all add: fixture_def)
  note spend = boundary_semantics[where rt = sample_runtime and c = "fixture ! 2"
      and f = "''totalSpend''" and v = "JStr ''800''", THEN conjunct1]
  note visits = boundary_semantics[where rt = sample_runtime and c = "fixture ! 2"
      and f = "''visitCount''" and v = "JNum 5", THEN conjunct1]
  note dates = boundary_semantics[where rt = sample_runtime and c = "fixture ! 2"
      and v = "JStr ''2024-06-01''", THEN conjunct2, THEN conjunct1, THEN mp, OF d(3)]
  note between0 = boundary_semantics[where rt = sample_runtime and c = "fixture ! 0"
      and s = "''2024-01-01,2024-03-01''" and ?d1.0 = "''2024-01-01''" and ?d2.0 = "''2024-03-01''"
      and rest = "[]" and lo = 1704067200000 and hi = 1709251200000,
      THEN conjunct2, THEN conjunct2, THEN mp, OF sp, THEN mp, OF d(1), THEN mp, OF d(2)]
  note between1 = boundary_semantics[where rt = sample_runtime and c = "fixture ! 1"
      and s = "''2024-01-01,2024-03-01''" and ?d1.0 = "''2024-01-01''" and ?d2.0 = "''2024-03-01''"
      and rest = "[]" and lo = 1704067200000 and hi = 1709251200000,
      THEN conjunct2, THEN conjunct2, THEN mp, OF sp, THEN mp, OF d(1), THEN mp, OF d(2)]
  show ?thesis
    using spend visits dates between0 between1 n v by simp
qed

section \<open>The segment routes\<close>

lemma createMany_set: "set (createMany data rows) = set rows \<union> set data"
  unfolding createMany_def by (induction data arbitrary: rows) auto

lemma slice_take_drop: "slice i (i + n) xs = take n (drop i xs)"
  by (simp add: slice_def)

lemma add_batches_set:
  "set (add_batches i ids sid rows) = set rows \<union> (\<lambda>c. (c, sid)) ` set (drop i ids)"
proof (induction i ids sid rows rule: add_batches.induct)
  case (1 i ids sid rows)
  show ?case
  proof (cases "i < length ids")
    case True
    have "set (drop i ids) = set (take batchSize (drop i ids)) \<union> set (drop (i + batchSize) ids)"
      by (metis add.commute append_take_drop_id drop_drop set_append)
    then show ?thesis
      using True "1.IH"[OF True refl]
      by (subst add_batches.simps) (auto simp: Let_def createMany_set slice_take_drop)
  next
    case False
    then show ?thesis by (subst add_batches.simps) simp
  qed
qed





subsection \<open>Creating a segment\<close>

lemma post_segment_invalid:
  "\<not> valid_create req \<Longrightarrow> post_segment rt new_id req db = (BadRequest, db)"
  by (simp add: post_segment_def)

lemma post_segment_fails:
  assumes "valid_create req"
    and "evaluateSegmentRules rt (customer_table db) (body_rules req) = Inl e"
  shows "post_segment rt new_id req db =
           (ServerError ''Error creating segment'',
            db \<lparr> segment_table := segment_table db @ [new_segment new_id req] \<rparr>)"
  using assms by (simp add: post_segment_def new_segment_def Let_def)

lemma post_segment_succeeds:
  assumes "valid_create req"
    and "evaluateSegmentRules rt (customer_table db) (body_rules req) = Inr ids"
  shows "post_segment rt new_id req db =
           (Created (new_segment new_id req) (length ids),
            db \<lparr> segment_table := segment_table db @ [new_segment new_id req],
                 customerSegment_table := add_batches 0 ids new_id (customerSegment_table db) \<rparr>)"
  using assms by (simp add: post_segment_def new_segment_def Let_def)

text \<open>
  C8, as the code has it. Creating a segment is not one atomic write. For a request that
  passes validation the segment record is written first, in every case; the customers are
  left as they were. If the evaluation of the rules then fails, the answer is status 500
  and no membership is written: the record written before stays, without its membership.
  If the evaluation succeeds, the answer carries the count of the matched customers and
  the memberships written (batch by batch) for the new segment are exactly the matched
  ids.
\<close>

theorem create_writes_record_first:
  assumes "valid_create req"
  shows "segment_table (snd (post_segment rt new_id req db)) = segment_table db @ [new_segment new_id req] \<and>
         customer_table (snd (post_segment rt new_id req db)) = customer_table db \<and>
         (\<forall>e. evaluateSegmentRules rt (customer_table db) (body_rules req) = Inl e \<longrightarrow>
            fst (post_segment rt new_id req db) = ServerError ''Error creating segment'' \<and>
            customerSegment_table (snd (post_segment rt new_id req db)) = customerSegment_table db) \<and>
         (\<forall>ids. evaluateSegmentRules rt (customer_table db) (body_rules req) = Inr ids \<longrightarrow>
            fst (post_segment rt new_id req db) = Created (new_segment new_id req) (length ids) \<and>
            set (customerSegment_table (snd (post_segment rt new_id req db)))
              = set (customerSegment_table db) \<union> (\<lambda>customerId. (customerId, new_id)) ` set ids)"
proof (cases "evaluateSegmentRules rt (customer_table db) (body_rules req)")
  case (Inl e)
  show ?thesis
    unfolding post_segment_fails[OF assms Inl] using Inl by simp
next
  case (Inr ids)
  show ?thesis
    unfolding post_segment_succeeds[OF assms Inr] using Inr by (simp add: add_batches_set)
qed

theorem create_writes_record_first_witness:
  "segment_table (snd (post_segment sample_runtime ''s1'' bad_create sample_db))
     = [new_segment ''s1'' bad_create] \<and>
   fst (post_segment sample_runtime ''s1'' bad_create sample_db)
     = ServerError ''Error creating segment'' \<and>
   customerSegment_table (snd (post_segment sample_runtime ''s1'' bad_create sample_db)) = [] \<and>
   fst (post_segment sample_runtime ''s2'' good_create sample_db)
     = Created (new_segment ''s2'' good_create) 2 \<and>
   set (customerSegment_table (snd (post_segment sample_runtime ''s2'' good_create sample_db)))
     = {(''1'', ''s2''), (''3'', ''s2'')}"
proof -
  have vb: "valid_create bad_create"
    by (simp add: valid_create_def bad_create_def notEmpty_def trim_def is_space_def Condition_def)
  have vg: "valid_create good_create"
    by (simp add: valid_create_def good_create_def notEmpty_def trim_def is_space_def RuleTree_def)
  have eb: "evaluateSegmentRules sample_runtime (customer_table sample_db) (body_rules bad_create)
      = Inl (UnsupportedField (JStr ''age''))"
    by (simp add: bad_create_def evaluateSegmentRules_def whereClause_def buildCondition_def
        Condition_def)
  have eg: "evaluateSegmentRules sample_runtime (customer_table sample_db) (body_rules good_create)
      = Inr [''1'', ''3'']"
    by (simp add: good_create_def sample_db_def evaluateSegmentRules_def whereClause_def
        conditions_map_def evaluate_simps)
  note b = create_writes_record_first[OF vb, of sample_runtime "''s1''" sample_db]
  note g = create_writes_record_first[OF vg, of sample_runtime "''s2''" sample_db]
  have 1: "segment_table (snd (post_segment sample_runtime ''s1'' bad_create sample_db))
     = [new_segment ''s1'' bad_create]"
    using b[THEN conjunct1] by (simp add: sample_db_def)
  have 2: "fst (post_segment sample_runtime ''s1'' bad_create sample_db)
     = ServerError ''Error creating segment'' \<and>
     customerSegment_table (snd (post_segment sample_runtime ''s1'' bad_create sample_db))
       = customerSegment_table sample_db"
    using b[THEN conjunct2, THEN conjunct2, THEN conjunct1, THEN spec, THEN mp, OF eb] .
  have 3: "fst (post_segment sample_runtime ''s2'' good_create sample_db)
     = Created (new_segment ''s2'' good_create) (length [''1'', ''3'']) \<and>
     set (customerSegment_table (snd (post_segment sample_runtime ''s2'' good_create sample_db)))
       = set (customerSegment_table sample_db) \<union> (\<lambda>customerId. (customerId, ''s2'')) ` set [''1'', ''3'']"
    using g[THEN conjunct2, THEN conjunct2, THEN conjunct2, THEN spec, THEN mp, OF eg] .
  have cs: "customerSegment_table sample_db = []" by (simp add: sample_db_def)
  from 1 2 3 show ?thesis unfolding cs by auto
qed

text \<open>
  A request whose rule is on the unknown field \<^verbatim>\<open>age\<close>: the answer is status 500, and the
  database holds the new segment record with no membership.
\<close>

theorem segment_without_membership:
  "post_segment sample_runtime ''s1'' bad_create sample_db =
     (ServerError ''Error creating segment'',
      \<lparr> customer_table = fixture,
        segment_table = [\<lparr> seg_id = ''s1'', seg_name = ''Big spenders'',
                      seg_description = Some ''Spend a lot'',
                      seg_rules = Condition ''age'' ''gt'' (JNum 30), createdById = ''u1'' \<rparr>],
        customerSegment_table = [] \<rparr>)"
  by (simp add: post_segment_def valid_create_def new_segment_def bad_create_def sample_db_def Let_def notEmpty_def trim_def
      is_space_def evaluateSegmentRules_def whereClause_def buildCondition_def Condition_def)

section \<open>The front-end rule evaluator\<close>

lemma field_value_undefined:
  "f \<notin> keys \<Longrightarrow> inherited eng f = None \<Longrightarrow> field_value eng c f = FUndefined"
  by (simp add: field_value_def keys_def)

lemma parsed_value_defined: "parsed_value eng (Some s) \<noteq> VUndefined"
  by (simp add: parsed_value_def split: option.splits)

lemma less_than_undefined:
  "\<not> less_than eng VUndefined b" "\<not> less_than eng a VUndefined"
  by (cases b; simp) (cases a; simp split: option.splits)

lemma loosely_equal_undefined:
  "loosely_equal eng VUndefined b \<longleftrightarrow> b = VUndefined"
  by (cases b) simp_all

lemma getMatchedCustomers_subseq: "subseq (getMatchedCustomers eng cs rs) cs"
  by (simp add: getMatchedCustomers_def)

lemma unknown_operator:
  assumes "element (split CHR '' '' rule) 1 \<notin> operators"
  shows "\<not> rule_holds eng c rule"
  using assms by (auto simp: rule_holds_def Let_def operators_def)

lemma unknown_operator_empty:
  assumes "rule \<in> set rs" and "element (split CHR '' '' rule) 1 \<notin> operators"
  shows "getMatchedCustomers eng cs rs = []"
  using assms unknown_operator[OF assms(2)]
  by (auto simp: getMatchedCustomers_def filter_empty_conv list_all_iff)

lemma unknown_field:
  assumes "element (split CHR '' '' rule) 0 = Some f" and "f \<notin> keys" and "inherited eng f = None"
    and "element (split CHR '' '' rule) 1 = Some opr"
  shows "opr = ''>'' \<or> opr = ''<'' \<Longrightarrow> \<not> rule_holds eng c rule"
    and "opr = ''='' \<or> opr = ''=='' \<Longrightarrow>
           rule_holds eng c rule \<longleftrightarrow> element (split CHR '' '' rule) 2 = None"
    and "opr = ''!='' \<Longrightarrow>
           rule_holds eng c rule \<longleftrightarrow> element (split CHR '' '' rule) 2 \<noteq> None"
proof -
  have fv: "field_value eng c f = FUndefined"
    using field_value_undefined[OF assms(2,3)] .
  have pv: "parsed_value eng (element (split CHR '' '' rule) 2) = VUndefined
              \<longleftrightarrow> element (split CHR '' '' rule) 2 = None"
    using parsed_value_defined[of eng]
    by (cases "element (split CHR '' '' rule) 2") (simp_all add: parsed_value_def)
  show "opr = ''>'' \<or> opr = ''<'' \<Longrightarrow> \<not> rule_holds eng c rule"
    using assms(1,4) fv less_than_undefined[of eng]
    by (auto simp: rule_holds_def Let_def simp del: less_than.simps)
  show "opr = ''='' \<or> opr = ''=='' \<Longrightarrow>
           rule_holds eng c rule \<longleftrightarrow> element (split CHR '' '' rule) 2 = None"
    using assms(1,4) fv pv by (auto simp: rule_holds_def Let_def loosely_equal_undefined)
  show "opr = ''!='' \<Longrightarrow>
           rule_holds eng c rule \<longleftrightarrow> element (split CHR '' '' rule) 2 \<noteq> None"
    using assms(1,4) fv pv by (auto simp: rule_holds_def Let_def loosely_equal_undefined)
qed


lemmas page_simps =
  getMatchedCustomers_def rule_holds_def Let_def sample_engine_def sample_customers_def
  element_def field_value_def parsed_value_def decimal_def is_digit_def

text \<open>
  C10, as the code has it. For every list of rules and every list of customers,
  \<^verbatim>\<open>getMatchedCustomers\<close> returns a sublist of the customers (none of its steps can
  raise). A rule whose operator is not one of the five the \<^verbatim>\<open>switch\<close> knows is false for
  every customer, so a list of rules that contains it matches nobody. A rule whose field
  is neither a key of \<^verbatim>\<open>Customer\<close> nor inherited reads \<^verbatim>\<open>undefined\<close>: under \<^verbatim>\<open>>\<close> and
  \<^verbatim>\<open><\<close> it is false for every customer; under \<^verbatim>\<open>=\<close> and \<^verbatim>\<open>==\<close> it is true exactly when
  the rule has no value token; under \<^verbatim>\<open>!=\<close> it is true exactly when the rule has a value
  token.
\<close>

theorem getMatchedCustomers_unknowns:
  "subseq (getMatchedCustomers eng cs rs) cs \<and>
   (element (split CHR '' '' rule) 1 \<notin> operators \<longrightarrow>
      \<not> rule_holds eng c rule \<and> (rule \<in> set rs \<longrightarrow> getMatchedCustomers eng cs rs = [])) \<and>
   (element (split CHR '' '' rule) 0 = Some f \<longrightarrow> f \<notin> keys \<longrightarrow> inherited eng f = None \<longrightarrow>
      (element (split CHR '' '' rule) 1 \<in> {Some ''>'', Some ''<''} \<longrightarrow>
         \<not> rule_holds eng c rule) \<and>
      (element (split CHR '' '' rule) 1 \<in> {Some ''='', Some ''==''} \<longrightarrow>
         (rule_holds eng c rule \<longleftrightarrow> element (split CHR '' '' rule) 2 = None)) \<and>
      (element (split CHR '' '' rule) 1 = Some ''!='' \<longrightarrow>
         (rule_holds eng c rule \<longleftrightarrow> element (split CHR '' '' rule) 2 \<noteq> None)))"
proof (intro conjI impI)
  show "subseq (getMatchedCustomers eng cs rs) cs" by (rule getMatchedCustomers_subseq)
next
  assume o: "element (split CHR '' '' rule) 1 \<notin> operators"
  show "\<not> rule_holds eng c rule" using unknown_operator[OF o] .
  assume "rule \<in> set rs"
  then show "getMatchedCustomers eng cs rs = []" using unknown_operator_empty o by blast
next
  assume f: "element (split CHR '' '' rule) 0 = Some f" "f \<notin> keys" "inherited eng f = None"
  {
    assume "element (split CHR '' '' rule) 1 \<in> {Some ''>'', Some ''<''}"
    then obtain opr where o: "element (split CHR '' '' rule) 1 = Some opr" "opr = ''>'' \<or> opr = ''<''"
      by auto
    show "\<not> rule_holds eng c rule" using unknown_field(1)[OF f o] .
  }
  {
    assume "element (split CHR '' '' rule) 1 \<in> {Some ''='', Some ''==''}"
    then obtain opr where o: "element (split CHR '' '' rule) 1 = Some opr" "opr = ''='' \<or> opr = ''==''"
      by auto
    show "rule_holds eng c rule \<longleftrightarrow> element (split CHR '' '' rule) 2 = None"
      using unknown_field(2)[OF f o] .
  }
  {
    assume o: "element (split CHR '' '' rule) 1 = Some ''!=''"
    show "rule_holds eng c rule \<longleftrightarrow> element (split CHR '' '' rule) 2 \<noteq> None"
      using unknown_field(3)[OF f o refl] .
  }
qed

theorem getMatchedCustomers_unknowns_witness:
  "subseq (getMatchedCustomers sample_engine sample_customers [''totalPurchases > 1''])
     sample_customers \<and>
   getMatchedCustomers sample_engine sample_customers [''totalPurchases > 1'', ''email ~ x''] = [] \<and>
   \<not> rule_holds sample_engine (sample_customers ! 0) ''age > 5'' \<and>
   \<not> rule_holds sample_engine (sample_customers ! 0) ''age = 5'' \<and>
   rule_holds sample_engine (sample_customers ! 0) ''age =='' \<and>
   rule_holds sample_engine (sample_customers ! 0) ''age != 5''"
proof -
  have k: "''age'' \<notin> keys" by (simp add: keys_def)
  have i: "inherited sample_engine ''age'' = None" by (simp add: sample_engine_def)
  have t: "split CHR '' '' ''age > 5'' = [''age'', ''>'', ''5'']"
    "split CHR '' '' ''age = 5'' = [''age'', ''='', ''5'']"
    "split CHR '' '' ''age =='' = [''age'', ''=='']"
    "split CHR '' '' ''age != 5'' = [''age'', ''!='', ''5'']"
    "split CHR '' '' ''email ~ x'' = [''email'', ''~'', ''x'']"
    by simp_all
  note u = getMatchedCustomers_unknowns[where eng = sample_engine and c = "sample_customers ! 0"
      and cs = sample_customers and f = "''age''"]
  have 1: "subseq (getMatchedCustomers sample_engine sample_customers [''totalPurchases > 1''])
     sample_customers"
    using u[where rs = "[''totalPurchases > 1'']"] by (rule conjunct1)
  have 2: "getMatchedCustomers sample_engine sample_customers
      [''totalPurchases > 1'', ''email ~ x''] = []"
    using u[where rule = "''email ~ x''" and rs = "[''totalPurchases > 1'', ''email ~ x'']",
        THEN conjunct2, THEN conjunct1]
    by (simp add: t element_def operators_def)
  have 3: "\<not> rule_holds sample_engine (sample_customers ! 0) ''age > 5''"
    using u[where rule = "''age > 5''", THEN conjunct2, THEN conjunct2] k i
    by (simp add: t element_def)
  have 4: "\<not> rule_holds sample_engine (sample_customers ! 0) ''age = 5''"
    using u[where rule = "''age = 5''", THEN conjunct2, THEN conjunct2] k i
    by (simp add: t element_def)
  have 5: "rule_holds sample_engine (sample_customers ! 0) ''age ==''"
    using u[where rule = "''age ==''", THEN conjunct2, THEN conjunct2] k i
    by (simp add: t element_def)
  have 6: "rule_holds sample_engine (sample_customers ! 0) ''age != 5''"
    using u[where rule = "''age != 5''", THEN conjunct2, THEN conjunct2] k i
    by (simp add: t element_def)
  from 1 2 3 4 5 6 show ?thesis by blast
qed

text \<open>
  \<^verbatim>\<open>age\<close> is not a key of \<^verbatim>\<open>Customer\<close>, and the rule \<^verbatim>\<open>age != 5\<close> holds for every
  customer (\<^verbatim>\<open>undefined != 5\<close>): the match set is the whole list.
\<close>

theorem unknown_field_matches_everyone:
  "''age'' \<notin> keys \<and>
   rule_holds sample_engine (sample_customers ! 0) ''age != 5'' \<and>
   rule_holds sample_engine (sample_customers ! 1) ''age != 5'' \<and>
   getMatchedCustomers sample_engine sample_customers [''age != 5''] = sample_customers"
  by (simp add: keys_def page_simps)

section \<open>Creating, updating and recounting segments\<close>

lemma handleCreateSegment_invalid:
  "form_invalid page \<Longrightarrow>
     handleCreateSegment eng now_string (page, ls)
       = (Some ''Please fill in all fields and define at least one rule.'', page, ls)"
  by (auto simp: handleCreateSegment_def form_invalid_def)

lemma handleCreateSegment_create:
  assumes "\<not> form_invalid page" and "editing page = None"
  shows "handleCreateSegment eng now_string (page, ls) =
           (None,
            page \<lparr> st_segments := st_segments page @ [created_segment eng now_string page],
                   st_name := [], st_description := [], st_rules := [],
                   isCreating := False, editingId := None \<rparr>,
            ls \<lparr> ls_segments := Some (st_segments page @ [created_segment eng now_string page]) \<rparr>)"
  using assms by (simp add: handleCreateSegment_def form_invalid_def created_segment_def Let_def)

lemma handleCreateSegment_update:
  assumes "\<not> form_invalid page" and "editing page = Some e"
  shows "handleCreateSegment eng now_string (page, ls) =
           (None,
            page \<lparr> st_segments :=
                     map (\<lambda>s. if segment_id s = e then created_segment eng e page else s) (st_segments page),
                   st_name := [], st_description := [], st_rules := [],
                   isCreating := False, editingId := None \<rparr>,
            ls \<lparr> ls_segments :=
                   Some (map (\<lambda>s. if segment_id s = e then created_segment eng e page else s)
                           (st_segments page)) \<rparr>)"
  using assms by (simp add: handleCreateSegment_def form_invalid_def created_segment_def Let_def)

lemma post_segment_BadRequest:
  "fst (post_segment rt new_id req db) = BadRequest \<longleftrightarrow> \<not> valid_create req"
  by (auto simp: post_segment_def Let_def split: sum.splits)

lemma post_segment_writes_record:
  "valid_create req \<Longrightarrow>
     segment_table (snd (post_segment rt new_id req db)) = segment_table db @ [new_segment new_id req]"
  by (auto simp: post_segment_def Let_def split: sum.splits)

text \<open>
  C5, as the code has it. The front end's \<^verbatim>\<open>handleCreateSegment\<close> validates before it
  materializes: with an empty name, an empty description or no rule it shows the alert
  and changes neither the page nor \<^verbatim>\<open>localStorage\<close>; otherwise (when no segment is being
  edited) it appends and persists a new segment whose \<^verbatim>\<open>matchedCustomerIds\<close> are the ids of
  the evaluation result and whose \<^verbatim>\<open>customerCount\<close> is their number. The backend's
  \<^verbatim>\<open>POST /\<close> answers 400, and writes nothing, exactly when the trimmed name is empty or
  the rules are not an object; every other request, also one with no description or with
  zero conditions, gets its segment record written.
\<close>

theorem create_validates:
  "(form_invalid page \<longrightarrow>
      handleCreateSegment eng now_string (page, ls)
        = (Some ''Please fill in all fields and define at least one rule.'', page, ls)) \<and>
   (\<not> form_invalid page \<longrightarrow> editing page = None \<longrightarrow>
      fst (handleCreateSegment eng now_string (page, ls)) = None \<and>
      ls_segments (snd (snd (handleCreateSegment eng now_string (page, ls))))
        = Some (st_segments page @ [created_segment eng now_string page]) \<and>
      st_segments (fst (snd (handleCreateSegment eng now_string (page, ls))))
        = st_segments page @ [created_segment eng now_string page] \<and>
      matchedCustomerIds (created_segment eng now_string page)
        = map customer_id (getMatchedCustomers eng (st_customers page) (st_rules page)) \<and>
      customerCount (created_segment eng now_string page)
        = length (matchedCustomerIds (created_segment eng now_string page))) \<and>
   (fst (post_segment rt new_id req db) = BadRequest \<longleftrightarrow>
      \<not> (notEmpty (map_option trim (body_name req)) \<and> isObject (body_rules req))) \<and>
   (fst (post_segment rt new_id req db) = BadRequest \<longrightarrow> snd (post_segment rt new_id req db) = db) \<and>
   (fst (post_segment rt new_id req db) \<noteq> BadRequest \<longrightarrow>
      segment_table (snd (post_segment rt new_id req db))
        = segment_table db @ [new_segment new_id req])"
proof (intro conjI impI)
  assume "form_invalid page"
  then show "handleCreateSegment eng now_string (page, ls)
        = (Some ''Please fill in all fields and define at least one rule.'', page, ls)"
    by (rule handleCreateSegment_invalid)
next
  assume a: "\<not> form_invalid page" "editing page = None"
  note c = handleCreateSegment_create[OF a, of eng now_string ls]
  show "fst (handleCreateSegment eng now_string (page, ls)) = None"
    unfolding c by simp
  show "ls_segments (snd (snd (handleCreateSegment eng now_string (page, ls))))
        = Some (st_segments page @ [created_segment eng now_string page])"
    unfolding c by simp
  show "st_segments (fst (snd (handleCreateSegment eng now_string (page, ls))))
        = st_segments page @ [created_segment eng now_string page]"
    unfolding c by simp
next
  show "matchedCustomerIds (created_segment eng now_string page)
        = map customer_id (getMatchedCustomers eng (st_customers page) (st_rules page))"
    by (simp add: created_segment_def)
  show "customerCount (created_segment eng now_string page)
        = length (matchedCustomerIds (created_segment eng now_string page))"
    by (simp add: created_segment_def)
next
  show "fst (post_segment rt new_id req db) = BadRequest \<longleftrightarrow>
      \<not> (notEmpty (map_option trim (body_name req)) \<and> isObject (body_rules req))"
    unfolding post_segment_BadRequest by (simp add: valid_create_def)
next
  assume "fst (post_segment rt new_id req db) = BadRequest"
  then have "\<not> valid_create req" by (simp add: post_segment_BadRequest)
  then show "snd (post_segment rt new_id req db) = db"
    by (simp add: post_segment_def)
next
  assume "fst (post_segment rt new_id req db) \<noteq> BadRequest"
  then have "valid_create req" by (simp add: post_segment_BadRequest)
  then show "segment_table (snd (post_segment rt new_id req db))
        = segment_table db @ [new_segment new_id req]"
    by (rule post_segment_writes_record)
qed

theorem create_validates_witness:
  "handleCreateSegment sample_engine ''1700000000000''
     (sample_page \<lparr> st_description := [] \<rparr>, sample_storage)
     = (Some ''Please fill in all fields and define at least one rule.'',
        sample_page \<lparr> st_description := [] \<rparr>, sample_storage) \<and>
   ls_segments (snd (snd (handleCreateSegment sample_engine ''1700000000000''
     (sample_page, sample_storage))))
     = Some [big_spenders,
             \<lparr> segment_id = ''1700000000000'', segment_name = ''Buyers'',
               segment_description = ''Bought more than once'', customerCount = 1,
               segment_rules = [''totalPurchases > 1''], matchedCustomerIds = [''a''] \<rparr>] \<and>
   fst (post_segment sample_runtime ''s2'' (good_create \<lparr> body_name := Some ''  '' \<rparr>) sample_db)
     = BadRequest \<and>
   snd (post_segment sample_runtime ''s2'' (good_create \<lparr> body_name := Some ''  '' \<rparr>) sample_db)
     = sample_db \<and>
   segment_table (snd (post_segment sample_runtime ''s2'' good_create sample_db))
     = [new_segment ''s2'' good_create]"
proof -
  have inv: "form_invalid (sample_page \<lparr> st_description := [] \<rparr>)"
    by (simp add: form_invalid_def)
  have ok: "\<not> form_invalid sample_page" "editing sample_page = None"
    by (simp_all add: form_invalid_def editing_def sample_page_def)
  have m: "getMatchedCustomers sample_engine (st_customers sample_page) (st_rules sample_page)
      = [sample_customers ! 0]"
    by (simp add: sample_page_def page_simps)
  have seg: "created_segment sample_engine ''1700000000000'' sample_page
      = \<lparr> segment_id = ''1700000000000'', segment_name = ''Buyers'',
          segment_description = ''Bought more than once'', customerCount = 1,
          segment_rules = [''totalPurchases > 1''], matchedCustomerIds = [''a''] \<rparr>"
    unfolding created_segment_def m by (simp add: sample_page_def sample_customers_def)
  have blank: "\<not> (notEmpty (map_option trim (body_name (good_create \<lparr> body_name := Some ''  '' \<rparr>)))
      \<and> isObject (body_rules (good_create \<lparr> body_name := Some ''  '' \<rparr>)))"
    by (simp add: notEmpty_def trim_def is_space_def)
  have named: "notEmpty (map_option trim (body_name good_create)) \<and> isObject (body_rules good_create)"
    by (simp add: good_create_def notEmpty_def trim_def is_space_def RuleTree_def)
  note f1 = create_validates[where page = "sample_page \<lparr> st_description := [] \<rparr>"
      and eng = sample_engine and now_string = "''1700000000000''" and ls = sample_storage,
      THEN conjunct1, THEN mp, OF inv]
  note f2 = create_validates[where page = sample_page and eng = sample_engine
      and now_string = "''1700000000000''" and ls = sample_storage,
      THEN conjunct2, THEN conjunct1, THEN mp, OF ok(1), THEN mp, OF ok(2),
      THEN conjunct2, THEN conjunct1]
  note b = create_validates[where rt = sample_runtime and new_id = "''s2''" and db = sample_db
      and req = "good_create \<lparr> body_name := Some ''  '' \<rparr>",
      THEN conjunct2, THEN conjunct2]
  note g = create_validates[where rt = sample_runtime and new_id = "''s2''" and db = sample_db
      and req = good_create, THEN conjunct2, THEN conjunct2]
  have 3: "fst (post_segment sample_runtime ''s2'' (good_create \<lparr> body_name := Some ''  '' \<rparr>)
      sample_db) = BadRequest"
    using b[THEN conjunct1] blank by blast
  have 4: "snd (post_segment sample_runtime ''s2'' (good_create \<lparr> body_name := Some ''  '' \<rparr>)
      sample_db) = sample_db"
    using b[THEN conjunct2, THEN conjunct1] 3 by blast
  have "fst (post_segment sample_runtime ''s2'' good_create sample_db) \<noteq> BadRequest"
    using g[THEN conjunct1] named by blast
  then have 5: "segment_table (snd (post_segment sample_runtime ''s2'' good_create sample_db))
     = segment_table sample_db @ [new_segment ''s2'' good_create]"
    using g[THEN conjunct2, THEN conjunct2] by blast
  from f1 f2 3 4 5 show ?thesis
    unfolding seg by (simp add: sample_page_def sample_db_def)
qed

text \<open>
  A request with no description and a rule with zero conditions passes the backend's
  validation, and its segment record is persisted.
\<close>

theorem create_without_description_or_conditions:
  "body_description lax_create = None \<and>
   property (body_rules lax_create) ''conditions'' = Inr (JArr []) \<and>
   fst (post_segment sample_runtime ''s3'' lax_create sample_db) \<noteq> BadRequest \<and>
   segment_table (snd (post_segment sample_runtime ''s3'' lax_create sample_db))
     = [\<lparr> seg_id = ''s3'', seg_name = ''Everyone'', seg_description = None,
          seg_rules = RuleTree ''AND'' [], createdById = ''u1'' \<rparr>]"
proof -
  have v: "valid_create lax_create"
    by (simp add: valid_create_def lax_create_def notEmpty_def trim_def is_space_def RuleTree_def)
  have 1: "fst (post_segment sample_runtime ''s3'' lax_create sample_db) \<noteq> BadRequest"
    using v by (simp add: post_segment_BadRequest)
  have 2: "segment_table (snd (post_segment sample_runtime ''s3'' lax_create sample_db))
     = [\<lparr> seg_id = ''s3'', seg_name = ''Everyone'', seg_description = None,
          seg_rules = RuleTree ''AND'' [], createdById = ''u1'' \<rparr>]"
    unfolding post_segment_writes_record[OF v]
    by (simp add: sample_db_def new_segment_def lax_create_def trim_def is_space_def)
  have 3: "body_description lax_create = None"
    "property (body_rules lax_create) ''conditions'' = Inr (JArr [])"
    by (simp_all add: lax_create_def property_RuleTree)
  from 1 2 3 show ?thesis by blast
qed

subsection \<open>Update, delete, and the count\<close>

lemma created_segment_consistent: "count_consistent (created_segment eng sid page)"
  by (simp add: count_consistent_def created_segment_def)

lemma handleCreateSegment_consistent:
  assumes "list_all count_consistent (st_segments page)"
  shows "list_all count_consistent
           (st_segments (fst (snd (handleCreateSegment eng now_string (page, ls)))))"
proof (cases "form_invalid page")
  case True
  then show ?thesis using assms by (simp add: handleCreateSegment_invalid)
next
  case False
  show ?thesis
  proof (cases "editing page")
    case None
    show ?thesis
      unfolding handleCreateSegment_create[OF False None]
      using assms by (simp add: created_segment_consistent)
  next
    case (Some e)
    show ?thesis
      unfolding handleCreateSegment_update[OF False Some]
      using assms by (auto simp: list_all_iff created_segment_consistent)
  qed
qed

lemma handleDelete_consistent:
  assumes "list_all count_consistent (st_segments page)"
  shows "list_all count_consistent (st_segments (fst (handleDelete confirmed sid (page, ls))))"
  using assms by (simp add: handleDelete_def Let_def list_all_iff)

lemma update_replaces:
  assumes "\<not> form_invalid page" and "editing page = Some e"
    and "s \<in> set (st_segments (fst (snd (handleCreateSegment eng now_string (page, ls)))))"
    and "segment_id s = e"
  shows "s = created_segment eng e page"
proof -
  from assms(3) obtain x where x: "x \<in> set (st_segments page)"
      "s = (if segment_id x = e then created_segment eng e page else x)"
    unfolding handleCreateSegment_update[OF assms(1,2)] by auto
  show ?thesis
  proof (cases "segment_id x = e")
    case True
    with x show ?thesis by simp
  next
    case False
    with x assms(4) show ?thesis by simp
  qed
qed

text \<open>
  C2, at a failing input. The stored segment's own rule is \<^verbatim>\<open>totalPurchases > 100\<close>, which
  no customer satisfies, before or after the purchase; the purchase of customer \<^verbatim>\<open>a\<close>
  makes \<^verbatim>\<open>updateSegmentCustomerCount\<close> store the count 1 for it, from the fixed test
  \<^verbatim>\<open>totalPurchases > 1\<close>.
\<close>

theorem recount_ignores_own_rules:
  "ls_segments (snd (handleMakePurchase ''a'' (sample_customers, sample_storage)))
     = Some [big_spenders \<lparr> customerCount := 1 \<rparr>] \<and>
   getMatchedCustomers sample_engine (fst (handleMakePurchase ''a'' (sample_customers, sample_storage)))
     (segment_rules big_spenders) = []"
  by (simp add: handleMakePurchase_def updateSegmentCustomerCount_def sample_storage_def
      big_spenders_def page_simps)

text \<open>
  C9, at a failing input. Before the purchase the stored segment's count agrees with its
  matched ids; after it the count is 1 and \<^verbatim>\<open>matchedCustomerIds\<close> is still empty.
\<close>

theorem recount_breaks_count:
  "map (\<lambda>s. (customerCount s, matchedCustomerIds s))
     (case ls_segments (snd (handleMakePurchase ''a'' (sample_customers, sample_storage))) of
        None \<Rightarrow> [] | Some ss \<Rightarrow> ss)
     = [(1, [])] \<and>
   count_consistent big_spenders"
  by (simp add: handleMakePurchase_def updateSegmentCustomerCount_def sample_storage_def
      big_spenders_def sample_customers_def count_consistent_def Let_def)

end
